theory Spec2Isabelle
  imports Main
begin

section \<open>Values of the quiz controller\<close>

text \<open>
  The controller works on parsed JSON. A question carries the four fields the handlers
  read: \<open>text\<close>, \<open>type\<close>, \<open>options\<close> and \<open>answer\<close>. The type tag is compared with
  \<open>===\<close> against two string literals only, so it is a string here (any other value
  behaves like a string different from both). The options are an array of strings, or
  absent (\<open>undefined\<close> or \<open>null\<close>, written \<open>None\<close>): reading \<open>.includes\<close> or \<open>.length\<close>
  of an absent value throws a TypeError. The answer is a string, or absent.
\<close>

datatype js_error =
    TypeError
  | ApiError string
  | ParseError string
  | StoreError string

record question =
  qtext :: string
  qtype :: string
  options :: "string list option"
  answer :: "string option"

subsection \<open>Rendering a number in a template literal\<close>

definition digit_char :: "nat \<Rightarrow> char" where
  "digit_char d = ''0123456789'' ! d"

fun show_nat :: "nat \<Rightarrow> string" where
  "show_nat n = (if n < 10 then [digit_char n] else show_nat (n div 10) @ [digit_char (n mod 10)])"

declare show_nat.simps [simp del]

section \<open>The per-question validation pass of generateQuiz\<close>

text \<open>\<open>q.options[0] || 'No answer provided'\<close>: the first option unless it is missing or
  the empty string (both falsy).\<close>

definition first_or_default :: "string list \<Rightarrow> string" where
  "first_or_default opts =
     (case opts of
        [] \<Rightarrow> ''No answer provided''
      | x # _ \<Rightarrow> if x = [] then ''No answer provided'' else x)"

text \<open>\<open>while (q.options.length < 4) q.options.push(`Option ${q.options.length + 1}`)\<close>\<close>

function pad_options :: "string list \<Rightarrow> string list" where
  "pad_options opts =
     (if length opts < 4
      then pad_options (opts @ [''Option '' @ show_nat (length opts + 1)])
      else opts)"
  by pat_completeness auto
termination
  by (relation "measure (\<lambda>opts. 4 - length opts)") auto

declare pad_options.simps [simp del]

text \<open>The three steps of the callback given to \<open>aiJson.questions.map\<close>, in source order.\<close>

definition fix_answer :: "question \<Rightarrow> js_error + question" where
  "fix_answer q =
     (if qtype q = ''mcq'' \<or> qtype q = ''true_false'' then
        (case options q of
           None \<Rightarrow> Inl TypeError
         | Some opts \<Rightarrow>
             if (case answer q of None \<Rightarrow> False | Some a \<Rightarrow> a \<in> set opts) then Inr q
             else Inr (q\<lparr>answer := Some (first_or_default opts)\<rparr>))
      else Inr q)"

definition fix_mcq_options :: "question \<Rightarrow> js_error + question" where
  "fix_mcq_options q =
     (if qtype q = ''mcq'' then
        (case options q of
           None \<Rightarrow> Inl TypeError
         | Some opts \<Rightarrow>
             if length opts < 4 then Inr (q\<lparr>options := Some (pad_options opts)\<rparr>) else Inr q)
      else Inr q)"

definition fix_true_false :: "question \<Rightarrow> js_error + question" where
  "fix_true_false q =
     (if qtype q = ''true_false'' then
        (case options q of
           None \<Rightarrow> Inl TypeError
         | Some opts \<Rightarrow>
             if ''True'' \<notin> set opts then
               (let q1 = q\<lparr>options := Some [''True'', ''False'']\<rparr>
                in if answer q1 \<noteq> Some ''True'' \<and> answer q1 \<noteq> Some ''False''
                   then Inr (q1\<lparr>answer := Some ''True''\<rparr>)
                   else Inr q1)
             else Inr q)
      else Inr q)"

definition validateQuestion :: "question \<Rightarrow> js_error + question" where
  "validateQuestion q =
     (case fix_answer q of
        Inl e \<Rightarrow> Inl e
      | Inr q1 \<Rightarrow>
          (case fix_mcq_options q1 of
             Inl e \<Rightarrow> Inl e
           | Inr q2 \<Rightarrow> fix_true_false q2))"

text \<open>\<open>aiJson.questions.map(...)\<close>: the callback runs on the questions in order; the
  first exception ends the whole map.\<close>

fun validatedQuestions :: "question list \<Rightarrow> js_error + question list" where
  "validatedQuestions [] = Inr []"
| "validatedQuestions (q # qs) =
     (case validateQuestion q of
        Inl e \<Rightarrow> Inl e
      | Inr q' \<Rightarrow>
          (case validatedQuestions qs of
             Inl e \<Rightarrow> Inl e
           | Inr qs' \<Rightarrow> Inr (q' # qs')))"

section \<open>Strings and numbers as the handler sees them\<close>

text \<open>
  A text that the handler inspects character by character (the provider's answer, the
  argument of \<open>parseInt\<close>) is a sequence of UTF-16 code units, each a number below 65536,
  as a JavaScript string is. \<open>code_units\<close> gives the code units of a string literal of the
  source. Strings that are only compared, copied or joined stay of type \<open>string\<close>.
\<close>

type_synonym js_text = "nat list"

definition code_units :: "string \<Rightarrow> js_text" where
  "code_units s = map of_char s"

text \<open>White space and line terminators, which \<open>trim\<close> and \<open>parseInt\<close> skip: TAB, LF, VT,
  FF, CR, SP, NBSP, U+1680, U+2000 to U+200A, LS, PS, U+202F, U+205F, U+3000 and the
  byte order mark U+FEFF.\<close>

definition is_ws :: "nat \<Rightarrow> bool" where
  "is_ws u =
     (u \<in> set [0x09, 0x0A, 0x0B, 0x0C, 0x0D, 0x20, 0xA0, 0x1680, 0x2028, 0x2029, 0x202F,
                0x205F, 0x3000, 0xFEFF]
      \<or> (0x2000 \<le> u \<and> u \<le> 0x200A))"

definition trim :: "js_text \<Rightarrow> js_text" where
  "trim s = rev (dropWhile is_ws (rev (dropWhile is_ws s)))"

text \<open>\<open>s.replace(/pat/g, '')\<close> for a literal pattern: the matches are taken from the left
  and do not overlap.\<close>

fun remove_all :: "js_text \<Rightarrow> js_text \<Rightarrow> js_text" where
  "remove_all pat [] = []"
| "remove_all pat (c # cs) =
     (if pat \<noteq> [] \<and> take (length pat) (c # cs) = pat
      then remove_all pat (drop (length pat - 1) cs)
      else c # remove_all pat cs)"

definition indexOf :: "nat \<Rightarrow> js_text \<Rightarrow> int" where
  "indexOf c s = (if c \<in> set s then int (length (takeWhile (\<lambda>x. x \<noteq> c) s)) else - 1)"

definition lastIndexOf :: "nat \<Rightarrow> js_text \<Rightarrow> int" where
  "lastIndexOf c s =
     (if c \<in> set s then int (length s) - 1 - int (length (takeWhile (\<lambda>x. x \<noteq> c) (rev s)))
      else - 1)"

text \<open>\<open>s.substring(a, b)\<close> clamps both indices into the string and swaps them when the
  first is the larger.\<close>

definition substring :: "js_text \<Rightarrow> int \<Rightarrow> int \<Rightarrow> js_text" where
  "substring s a b =
     (let n = int (length s);
          a' = max 0 (min a n);
          b' = max 0 (min b n);
          lo = min a' b';
          hi = max a' b'
      in take (nat (hi - lo)) (drop (nat lo) s))"

definition show_int :: "int \<Rightarrow> string" where
  "show_int i = (if i < 0 then CHR ''-'' # show_nat (nat (- i)) else show_nat (nat i))"

subsection \<open>parseInt\<close>

text \<open>
  \<open>parseInt\<close> converts its argument to a string, skips leading white space, reads an
  optional sign, takes radix 16 after a \<open>0x\<close> prefix and radix 10 otherwise, and reads the
  longest run of digits; with no digit the result is NaN (\<open>None\<close>). The digits are
  \<open>0\<close> to \<open>9\<close> (48 to 57), \<open>a\<close> to \<open>z\<close> (97 to 122) and \<open>A\<close> to \<open>Z\<close> (65 to 90).
\<close>

definition digit_value :: "nat \<Rightarrow> nat" where
  "digit_value k =
     (if 48 \<le> k \<and> k \<le> 57 then k - 48
      else if 97 \<le> k \<and> k \<le> 122 then k - 87
      else k - 55)"

definition is_digit :: "nat \<Rightarrow> nat \<Rightarrow> bool" where
  "is_digit radix k =
     (((48 \<le> k \<and> k \<le> 57) \<or> (97 \<le> k \<and> k \<le> 122) \<or> (65 \<le> k \<and> k \<le> 90))
      \<and> digit_value k < radix)"

definition digits_value :: "nat \<Rightarrow> js_text \<Rightarrow> nat" where
  "digits_value radix ds = foldl (\<lambda>a c. radix * a + digit_value c) 0 ds"

definition parseInt :: "js_text \<Rightarrow> int option" where
  "parseInt s =
     (let s1 = dropWhile is_ws s;
          neg = (take 1 s1 = code_units ''-'');
          s2 = (if take 1 s1 = code_units ''-'' \<or> take 1 s1 = code_units ''+''
                then drop 1 s1 else s1);
          hex = (take 2 s2 = code_units ''0x'' \<or> take 2 s2 = code_units ''0X'');
          radix = (if hex then 16 else 10);
          s3 = (if hex then drop 2 s2 else s2);
          ds = takeWhile (is_digit radix) s3
      in if ds = [] then None
         else Some ((if neg then - 1 else 1) * int (digits_value radix ds)))"

section \<open>generateQuiz\<close>

text \<open>
  The request body of the generate route. \<open>prompt\<close> and \<open>quizType\<close> are strings or
  absent. \<open>numberOfQuestions\<close> is held as the text \<open>parseInt\<close> converts it to (the
  digits \<open>7\<close> for the number 7, \<open>null\<close> for null, a string for itself), or \<open>None\<close> when
  the body has no such field, where the destructuring default 5 applies.
\<close>

record user =
  user_id :: "string option"
  user_oid :: "string option"

record gen_body =
  prompt :: "string option"
  quizType :: "string option"
  numberOfQuestions :: "js_text option"

record gen_request =
  gen_user :: "user option"
  gen_body :: gen_body

text \<open>A string or absent value is truthy when it is a non-empty string; \<open>a || b\<close> is
  \<open>a\<close> when \<open>a\<close> is truthy and \<open>b\<close> otherwise.\<close>

definition truthy :: "string option \<Rightarrow> bool" where
  "truthy v = (case v of None \<Rightarrow> False | Some s \<Rightarrow> s \<noteq> [])"

definition js_or :: "string option \<Rightarrow> string option \<Rightarrow> string option" where
  "js_or a b = (if truthy a then a else b)"

text \<open>\<open>req.user?.id || req.user?._id\<close>, with \<open>user_id\<close> for \<open>id\<close> and \<open>user_oid\<close> for \<open>_id\<close>.\<close>

definition adminId_of :: "user option \<Rightarrow> string option" where
  "adminId_of u = (case u of None \<Rightarrow> None | Some usr \<Rightarrow> js_or (user_id usr) (user_oid usr))"

text \<open>\<open>Math.max(1, Math.min(50, parseInt(numberOfQuestions) || 5))\<close>, after the default
  of the destructuring. NaN and 0 are the falsy results of \<open>parseInt\<close>.\<close>

definition questionCount :: "js_text option \<Rightarrow> int" where
  "questionCount n =
     (let arg = (case n of None \<Rightarrow> code_units (show_int 5) | Some s \<Rightarrow> s);
          parsed = (case parseInt arg of None \<Rightarrow> 5 | Some k \<Rightarrow> if k = 0 then 5 else k)
      in max 1 (min 50 parsed))"

text \<open>The advisory message, from the number of questions returned and the count asked
  for.\<close>

definition responseMessage :: "int \<Rightarrow> int \<Rightarrow> string" where
  "responseMessage actualCount qc =
     (if actualCount < qc then
        (let difference = qc - actualCount
         in ''AI generated '' @ show_int actualCount @ '' questions (requested '' @ show_int qc
            @ ''). '' @ show_int difference @ '' question''
            @ (if difference > 1 then ''s'' else [])
            @ '' short. You can add more questions manually or regenerate.'')
      else if actualCount > qc then
        (let extra = actualCount - qc
         in ''AI generated '' @ show_int actualCount @ '' questions (requested '' @ show_int qc
            @ ''). '' @ show_int extra @ '' extra question''
            @ (if extra > 1 then ''s'' else [])
            @ ''. You can remove extras if needed.'')
      else ''Quiz generated successfully. Review and save when ready.'')"

text \<open>
  What \<open>JSON.parse\<close> returns for the text cut out of the model's answer: the title and
  the questions, each possibly absent. Reading \<open>.length\<close> of absent questions throws.
\<close>

record candidate =
  cand_title :: "string option"
  cand_questions :: "question list option"

text \<open>
  A stored quiz, with the fields the handlers read and write and the optional weightage
  and weightage type of the data model (the edit form reads both from a stored quiz and
  sends both back), and the store as the list of documents under their identifiers,
  oldest first.

  Modelled from the spec: the Quiz model (\<open>../models/Quiz.js\<close>) and the document store
  behind it are not part of the sources. \<open>findById\<close> looks an identifier up, \<open>save\<close>
  of a loaded document replaces it in place, \<open>findByIdAndDelete\<close> removes it, and \<open>save\<close>
  of a new document adds it under a store-assigned identifier. What the schema accepts,
  the identifier it assigns, the weightage fields it gives a new document and the result
  of the list query are parameters of the environment.
\<close>

record quiz_doc =
  title :: string
  questions :: "question list"
  timeLimit :: int
  adminId :: string
  weightage :: "int option"
  weightageType :: "string option"

type_synonym store = "(string \<times> quiz_doc) list"

record quiz_summary =
  sum_id :: string
  sum_title :: string
  sum_questions :: "question list"

definition findById :: "store \<Rightarrow> string \<Rightarrow> quiz_doc option" where
  "findById st i = map_of st i"

definition replace_doc :: "store \<Rightarrow> string \<Rightarrow> quiz_doc \<Rightarrow> store" where
  "replace_doc st i d = map (\<lambda>(k, v). if k = i then (k, d) else (k, v)) st"

definition findByIdAndDelete :: "store \<Rightarrow> string \<Rightarrow> store" where
  "findByIdAndDelete st i = filter (\<lambda>(k, v). k \<noteq> i) st"

text \<open>
  The environment of the handlers: the configured API key, the call to the generation
  provider (from the topic, the question type and the count that the prompt is built
  from, to the returned text or the message of the exception), \<open>JSON.parse\<close> (the parsed
  candidate or the message of the exception), and the parameters of the store.
\<close>

record prompt_params =
  pp_topic :: string
  pp_quizType :: "string option"
  pp_questionCount :: int

record env =
  apiKey :: "string option"
  generateContent :: "prompt_params \<Rightarrow> string + js_text"
  JSON_parse :: "js_text \<Rightarrow> string + candidate"
  schema_error :: "quiz_doc \<Rightarrow> string option"
  newObjectId :: "store \<Rightarrow> string"
  default_weightage :: "int option"
  default_weightageType :: "string option"
  runFind :: "store \<Rightarrow> string \<Rightarrow> int option \<Rightarrow> quiz_summary list"

subsection \<open>Responses\<close>

datatype payload =
    PreviewQuiz "string option" "question list" int
  | StoredQuiz quiz_doc
  | QuizList "quiz_summary list"

record response =
  status :: nat
  success :: bool
  message :: "string option"
  error :: "js_error option"
  rawText :: "js_text option"
  data :: "payload option"
  preview :: bool

definition failure :: "nat \<Rightarrow> string \<Rightarrow> response" where
  "failure code msg =
     \<lparr>status = code, success = False, message = Some msg, error = None, rawText = None,
      data = None, preview = False\<rparr>"

definition failure_with :: "nat \<Rightarrow> string \<Rightarrow> js_error \<Rightarrow> response" where
  "failure_with code msg e = (failure code msg)\<lparr>error := Some e\<rparr>"

subsection \<open>The handler\<close>

text \<open>Step 4 of the handler: strip the code fences and trim, then cut from the first
  opening brace to the last closing brace.\<close>

definition clean_text :: "js_text \<Rightarrow> js_text" where
  "clean_text raw =
     trim (remove_all (code_units ''```'') (remove_all (code_units ''```json'') raw))"

definition json_span :: "js_text \<Rightarrow> js_text" where
  "json_span txt =
     substring txt (indexOf (of_char CHR ''{'') txt) (lastIndexOf (of_char CHR ''}'') txt + 1)"

text \<open>Steps 4 to 6: clean the text, cut out the JSON object, parse it, validate the
  questions and build the preview response. An exception of the validation pass reaches
  the handler's outer \<open>catch\<close>.\<close>

definition respond_to_text :: "env \<Rightarrow> int \<Rightarrow> js_text \<Rightarrow> response" where
  "respond_to_text e qc raw =
     (let txt = clean_text raw;
          firstBrace = indexOf (of_char CHR ''{'') txt;
          lastBrace = lastIndexOf (of_char CHR ''}'') txt
      in if firstBrace = - 1 \<or> lastBrace = - 1 then
           (failure 500 ''AI response did not contain valid JSON'')
             \<lparr>rawText := Some (substring txt 0 500)\<rparr>
         else
           (let jsonText = json_span txt
            in case JSON_parse e jsonText of
                 Inl parseError \<Rightarrow>
                   (failure_with 500 ''AI response was not valid JSON.'' (ParseError parseError))
                     \<lparr>rawText := Some (substring jsonText 0 500)\<rparr>
               | Inr aiJson \<Rightarrow>
                   (case cand_questions aiJson of
                      None \<Rightarrow> failure_with 500 ''Failed to generate quiz'' TypeError
                    | Some qs \<Rightarrow>
                        (case validatedQuestions qs of
                           Inl err \<Rightarrow> failure_with 500 ''Failed to generate quiz'' err
                         | Inr vqs \<Rightarrow>
                             \<lparr>status = 200, success = True,
                              message = Some (responseMessage (int (length vqs)) qc),
                              error = None, rawText = None,
                              data = Some (PreviewQuiz (cand_title aiJson) vqs 10),
                              preview = True\<rparr>))))"

definition generateQuiz :: "env \<Rightarrow> gen_request \<Rightarrow> response" where
  "generateQuiz e req =
     (case prompt (gen_body req) of
        None \<Rightarrow> failure 400 ''Prompt is required''
      | Some p \<Rightarrow>
          if p = [] then failure 400 ''Prompt is required''
          else if \<not> truthy (adminId_of (gen_user req)) then
            failure 401 ''You must be logged in to create a quiz''
          else
            (let qc = questionCount (numberOfQuestions (gen_body req))
             in if \<not> truthy (apiKey e) then failure 500 ''Gemini API key is not configured''
                else
                  (case generateContent e
                          \<lparr>pp_topic = p, pp_quizType = quizType (gen_body req),
                           pp_questionCount = qc\<rparr> of
                     Inl apiError \<Rightarrow>
                       failure_with 500
                         ''Failed to connect to AI service. Please check your API key and try again.''
                         (ApiError apiError)
                   | Inr raw \<Rightarrow> respond_to_text e qc raw)))"

section \<open>The handlers over the quiz store\<close>

record list_request =
  list_user :: "user option"
  list_limit :: "js_text option"

record id_request =
  req_user :: "user option"
  req_id :: string

text \<open>The body of an update or a manual create, as the edit form sends it: each field
  is present or absent (\<open>undefined\<close>). The handlers read the title, the questions and
  the time limit, and nothing else of the body.\<close>

record quiz_body =
  body_title :: "string option"
  body_questions :: "question list option"
  body_timeLimit :: "int option"
  body_weightage :: "int option"
  body_weightageType :: "string option"

record update_request =
  upd_user :: "user option"
  upd_id :: string
  upd_body :: quiz_body

record create_request =
  new_user :: "user option"
  new_body :: quiz_body

definition getQuizzes :: "env \<Rightarrow> store \<Rightarrow> list_request \<Rightarrow> response \<times> store" where
  "getQuizzes e st req =
     (case adminId_of (list_user req) of
        None \<Rightarrow> (failure 401 ''You must be logged in to view quizzes'', st)
      | Some a \<Rightarrow>
          if a = [] then (failure 401 ''You must be logged in to view quizzes'', st)
          else
            (let limit = (case list_limit req of
                            None \<Rightarrow> None
                          | Some l \<Rightarrow> if l = [] then None else parseInt l);
                 applied = (case limit of
                              None \<Rightarrow> None
                            | Some n \<Rightarrow> if n = 0 then None else Some n)
             in (\<lparr>status = 200, success = True, message = None, error = None,
                  rawText = None, data = Some (QuizList (runFind e st a applied)),
                  preview = False\<rparr>, st)))"

text \<open>\<open>quiz.adminId.toString() !== adminId.toString()\<close> throws when the request carries
  no identity; the handler's own \<open>catch\<close> turns that into its 500 response.\<close>

definition getQuizById :: "store \<Rightarrow> id_request \<Rightarrow> response \<times> store" where
  "getQuizById st req =
     (case findById st (req_id req) of
        None \<Rightarrow> (failure 404 ''Quiz not found'', st)
      | Some quiz \<Rightarrow>
          (case adminId_of (req_user req) of
             None \<Rightarrow> (failure_with 500 ''Failed to fetch quiz'' TypeError, st)
           | Some a \<Rightarrow>
               if adminId quiz \<noteq> a then (failure 403 ''Not authorized to view this quiz'', st)
               else
                 (\<lparr>status = 200, success = True, message = None, error = None,
                   rawText = None, data = Some (StoredQuiz quiz), preview = False\<rparr>, st)))"

definition deleteQuiz :: "store \<Rightarrow> id_request \<Rightarrow> response \<times> store" where
  "deleteQuiz st req =
     (case findById st (req_id req) of
        None \<Rightarrow> (failure 404 ''Quiz not found'', st)
      | Some quiz \<Rightarrow>
          (case adminId_of (req_user req) of
             None \<Rightarrow> (failure_with 500 ''Failed to delete quiz'' TypeError, st)
           | Some a \<Rightarrow>
               if adminId quiz \<noteq> a then (failure 403 ''Not authorized to delete this quiz'', st)
               else
                 (\<lparr>status = 200, success = True, message = Some ''Quiz deleted successfully'',
                   error = None, rawText = None, data = None, preview = False\<rparr>,
                  findByIdAndDelete st (req_id req))))"

text \<open>The three assignments of updateQuiz, each under its \<open>!== undefined\<close> test.\<close>

definition apply_patch :: "quiz_body \<Rightarrow> quiz_doc \<Rightarrow> quiz_doc" where
  "apply_patch b quiz =
     (let q1 = (case body_title b of None \<Rightarrow> quiz | Some t \<Rightarrow> quiz\<lparr>title := t\<rparr>);
          q2 = (case body_questions b of None \<Rightarrow> q1 | Some qs \<Rightarrow> q1\<lparr>questions := qs\<rparr>);
          q3 = (case body_timeLimit b of None \<Rightarrow> q2 | Some lim \<Rightarrow> q2\<lparr>timeLimit := lim\<rparr>)
      in q3)"

definition updateQuiz :: "env \<Rightarrow> store \<Rightarrow> update_request \<Rightarrow> response \<times> store" where
  "updateQuiz e st req =
     (case findById st (upd_id req) of
        None \<Rightarrow> (failure 404 ''Quiz not found'', st)
      | Some quiz \<Rightarrow>
          (case adminId_of (upd_user req) of
             None \<Rightarrow> (failure_with 500 ''Failed to update quiz'' TypeError, st)
           | Some a \<Rightarrow>
               if adminId quiz \<noteq> a then (failure 403 ''Not authorized to edit this quiz'', st)
               else
                 (let quiz' = apply_patch (upd_body req) quiz
                  in case schema_error e quiz' of
                       Some msg \<Rightarrow> (failure_with 500 ''Failed to update quiz'' (StoreError msg), st)
                     | None \<Rightarrow>
                         (\<lparr>status = 200, success = True,
                           message = Some ''Quiz updated successfully'', error = None,
                           rawText = None, data = Some (StoredQuiz quiz'), preview = False\<rparr>,
                          replace_doc st (upd_id req) quiz'))))"

definition createManualQuiz :: "env \<Rightarrow> store \<Rightarrow> create_request \<Rightarrow> response \<times> store" where
  "createManualQuiz e st req =
     (case (body_title (new_body req), body_questions (new_body req)) of
        (Some t, Some qs) \<Rightarrow>
          if t = [] \<or> length qs = 0 then
            (failure 400 ''Title and at least one question are required'', st)
          else
            (case adminId_of (new_user req) of
               None \<Rightarrow> (failure 401 ''You must be logged in to create a quiz'', st)
             | Some a \<Rightarrow>
                 if a = [] then (failure 401 ''You must be logged in to create a quiz'', st)
                 else
                   (let newQuiz =
                          \<lparr>title = t, questions = qs,
                           timeLimit = (case body_timeLimit (new_body req) of
                                          None \<Rightarrow> 10
                                        | Some lim \<Rightarrow> if lim = 0 then 10 else lim),
                           adminId = a,
                     weightage = default_weightage e,
                     weightageType = default_weightageType e\<rparr>;
                        i = newObjectId e st
                    in case schema_error e newQuiz of
                         Some msg \<Rightarrow>
                           (failure_with 500 ''Failed to create quiz'' (StoreError msg), st)
                       | None \<Rightarrow>
                           if i \<in> fst ` set st then
                             (failure_with 500 ''Failed to create quiz''
                                (StoreError ''duplicate key''), st)
                           else
                             (\<lparr>status = 201, success = True,
                               message = Some ''Quiz created successfully'', error = None,
                               rawText = None, data = Some (StoredQuiz newQuiz),
                               preview = False\<rparr>,
                              st @ [(i, newQuiz)])))
      | _ \<Rightarrow> (failure 400 ''Title and at least one question are required'', st))"

subsection \<open>The operations of the quiz service, as one step on the store\<close>

datatype operation =
    Generate gen_request
  | ListQuizzes list_request
  | GetById id_request
  | Delete id_request
  | Update update_request
  | CreateManual create_request

fun handle :: "env \<Rightarrow> store \<Rightarrow> operation \<Rightarrow> response \<times> store" where
  "handle e st (Generate req) = (generateQuiz e req, st)"
| "handle e st (ListQuizzes req) = getQuizzes e st req"
| "handle e st (GetById req) = getQuizById st req"
| "handle e st (Delete req) = deleteQuiz st req"
| "handle e st (Update req) = updateQuiz e st req"
| "handle e st (CreateManual req) = createManualQuiz e st req"

section \<open>Example data\<close>

text \<open>A small environment, requests and store, used to run the handlers on concrete
  inputs.\<close>

definition example_questions :: "question list" where
  "example_questions =
     [\<lparr>qtext = ''2 + 2?'', qtype = ''mcq'', options = Some [''3'', ''4''], answer = Some ''4''\<rparr>,
      \<lparr>qtext = ''Is 7 prime?'', qtype = ''true_false'', options = Some [''Yes'', ''No''],
       answer = Some ''Yes''\<rparr>,
      \<lparr>qtext = ''Name a prime.'', qtype = ''short_answer'', options = Some [],
       answer = Some ''2''\<rparr>]"

definition example_candidate :: candidate where
  "example_candidate = \<lparr>cand_title = Some ''Numbers'', cand_questions = Some example_questions\<rparr>"

definition example_env :: env where
  "example_env =
     \<lparr>apiKey = Some ''key'',
      generateContent = (\<lambda>p. Inr (code_units ''```json {} ```'')),
      JSON_parse =
        (\<lambda>t. if t = code_units ''{}'' then Inr example_candidate else Inl ''Unexpected token''),
      schema_error = (\<lambda>d. None),
      newObjectId = (\<lambda>st. ''quiz'' @ show_nat (length st + 1)),
      default_weightage = Some 0,
      default_weightageType = Some ''percentage'',
      runFind = (\<lambda>st a lim. [])\<rparr>"

definition failing_env :: env where
  "failing_env = example_env\<lparr>generateContent := (\<lambda>p. Inl ''fetch failed'')\<rparr>"

definition admin1 :: "user option" where
  "admin1 = Some \<lparr>user_id = Some ''admin1'', user_oid = None\<rparr>"

definition admin2 :: "user option" where
  "admin2 = Some \<lparr>user_id = None, user_oid = Some ''admin2''\<rparr>"

definition example_gen_request :: gen_request where
  "example_gen_request =
     \<lparr>gen_user = admin1,
      gen_body = \<lparr>prompt = Some ''numbers'', quizType = Some ''mcq'', numberOfQuestions = None\<rparr>\<rparr>"

definition example_quiz :: quiz_doc where
  "example_quiz =
     \<lparr>title = ''Numbers'', questions = example_questions, timeLimit = 10, adminId = ''admin1'',
      weightage = Some 0, weightageType = Some ''percentage''\<rparr>"

definition example_store :: store where
  "example_store = [(''quiz1'', example_quiz)]"

text \<open>Two update bodies: what the edit form sends after the title was changed, and a
  body with the weightage fields only.\<close>

definition form_patch :: quiz_body where
  "form_patch =
     \<lparr>body_title = Some ''Integers'', body_questions = Some example_questions,
      body_timeLimit = Some 10, body_weightage = Some 50, body_weightageType = Some ''marks''\<rparr>"

definition weightage_patch :: quiz_body where
  "weightage_patch =
     \<lparr>body_title = None, body_questions = None, body_timeLimit = None,
      body_weightage = Some 50, body_weightageType = Some ''marks''\<rparr>"

section \<open>Properties of the validation pass\<close>

lemma pad_options_long: "4 \<le> length opts \<Longrightarrow> pad_options opts = opts"
  by (simp add: pad_options.simps)

lemma pad_options_eq:
  "pad_options opts = opts @ map (\<lambda>k. ''Option '' @ show_nat (k + 1)) [length opts..<4]"
proof (induction opts rule: pad_options.induct)
  case (1 opts)
  show ?case
  proof (cases "length opts < 4")
    case True
    let ?p = "\<lambda>k. ''Option '' @ show_nat (k + 1)"
    from True 1 have "pad_options (opts @ [?p (length opts)]) =
        (opts @ [?p (length opts)]) @ map ?p [length (opts @ [?p (length opts)])..<4]"
      by simp
    also have "\<dots> = opts @ map ?p [length opts..<4]"
      using True by (simp add: upt_conv_Cons)
    finally show ?thesis using True by (subst pad_options.simps) simp
  next
    case False
    then show ?thesis by (simp add: pad_options.simps)
  qed
qed

lemma pad_options_append: "\<exists>ys. pad_options opts = opts @ ys"
  using pad_options_eq [of opts] by blast

lemma pad_options_length: "length (pad_options opts) = max 4 (length opts)"
proof (induction opts rule: pad_options.induct)
  case (1 opts)
  show ?case
  proof (cases "length opts < 4")
    case True
    with 1 show ?thesis by (subst pad_options.simps) auto
  next
    case False
    then show ?thesis by (simp add: pad_options.simps)
  qed
qed

lemma pad_options_subset: "x \<in> set opts \<Longrightarrow> x \<in> set (pad_options opts)"
  using pad_options_append [of opts] by auto

lemma pad_options_first: "first_or_default (pad_options (x # xs)) = first_or_default (x # xs)"
  using pad_options_append [of "x # xs"] by (auto simp: first_or_default_def)

lemma validatedQuestions_length:
  "validatedQuestions qs = Inr qs' \<Longrightarrow> length qs' = length qs"
  by (induction qs arbitrary: qs') (auto split: sum.splits)

lemma validatedQuestions_nth:
  "validatedQuestions qs = Inr qs' \<Longrightarrow> i < length qs \<Longrightarrow> validateQuestion (qs ! i) = Inr (qs' ! i)"
proof (induction qs arbitrary: qs' i)
  case Nil
  then show ?case by simp
next
  case (Cons q qs)
  then show ?case by (cases i) (auto split: sum.splits)
qed



lemma answer_in_iff: "(case a of None \<Rightarrow> False | Some x \<Rightarrow> x \<in> set opts) = (a \<in> Some ` set opts)"
  by (cases a) auto

lemma validateQuestion_other:
  "qtype q \<noteq> ''mcq'' \<Longrightarrow> qtype q \<noteq> ''true_false'' \<Longrightarrow> validateQuestion q = Inr q"
  by (simp add: validateQuestion_def fix_answer_def fix_mcq_options_def fix_true_false_def)

lemma validateQuestion_None:
  "qtype q = ''mcq'' \<or> qtype q = ''true_false'' \<Longrightarrow> options q = None \<Longrightarrow> validateQuestion q = Inl TypeError"
  by (simp add: validateQuestion_def fix_answer_def)

lemma validateQuestion_mcq_eq:
  assumes "qtype q = ''mcq''" and "options q = Some opts"
  shows "validateQuestion q =
           Inr (q\<lparr>answer := (if answer q \<in> Some ` set opts then answer q else Some (first_or_default opts)),
                  options := Some (if length opts < 4 then pad_options opts else opts)\<rparr>)"
proof (cases "answer q \<in> Some ` set opts")
  case True
  with assms show ?thesis
    by (cases "length opts < 4")
       (simp_all add: validateQuestion_def fix_answer_def fix_mcq_options_def fix_true_false_def answer_in_iff)
next
  case False
  with assms show ?thesis
    by (cases "length opts < 4")
       (simp_all add: validateQuestion_def fix_answer_def fix_mcq_options_def fix_true_false_def answer_in_iff)
qed


lemma validateQuestion_true_false_eq:
  assumes "qtype q = ''true_false''" and "options q = Some opts"
  shows "validateQuestion q =
           Inr (let a1 = (if answer q \<in> Some ` set opts then answer q else Some (first_or_default opts))
                in if ''True'' \<in> set opts then q\<lparr>answer := a1\<rparr>
                   else q\<lparr>answer := (if a1 \<noteq> Some ''True'' \<and> a1 \<noteq> Some ''False'' then Some ''True'' else a1),
                          options := Some [''True'', ''False'']\<rparr>)"
proof (cases "answer q \<in> Some ` set opts")
  case True
  with assms show ?thesis
    by (cases "''True'' \<in> set opts")
       (simp_all add: validateQuestion_def fix_answer_def fix_mcq_options_def fix_true_false_def answer_in_iff Let_def)
next
  case False
  with assms show ?thesis
    by (cases "''True'' \<in> set opts")
       (simp_all add: validateQuestion_def fix_answer_def fix_mcq_options_def fix_true_false_def answer_in_iff Let_def)
qed

lemma validateQuestion_qtype: "validateQuestion q = Inr q' \<Longrightarrow> qtype q' = qtype q"
proof -
  assume h: "validateQuestion q = Inr q'"
  consider (m) "qtype q = ''mcq''" | (t) "qtype q = ''true_false''"
    | (o) "qtype q \<noteq> ''mcq''" "qtype q \<noteq> ''true_false''" by blast
  then show ?thesis
  proof cases
    case m
    show ?thesis
    proof (cases "options q")
      case None
      with m h show ?thesis by (simp add: validateQuestion_None)
    next
      case (Some opts)
      with m h show ?thesis by (auto simp: validateQuestion_mcq_eq)
    qed
  next
    case t
    show ?thesis
    proof (cases "options q")
      case None
      with t h show ?thesis by (simp add: validateQuestion_None)
    next
      case (Some opts)
      from validateQuestion_true_false_eq [OF t Some] h show ?thesis
        by (auto simp: Let_def split: if_splits)
    qed
  next
    case o
    with h show ?thesis by (simp add: validateQuestion_other)
  qed
qed


lemma validateQuestion_idem_mcq:
  assumes m: "qtype q = ''mcq''" and o: "options q = Some opts" and ne: "opts \<noteq> []"
    and h: "validateQuestion q = Inr q'"
  shows "validateQuestion q' = Inr q'"
proof -
  define o1 where "o1 = (if length opts < 4 then pad_options opts else opts)"
  define a1 where "a1 = (if answer q \<in> Some ` set opts then answer q else Some (first_or_default opts))"
  have q': "q' = q\<lparr>answer := a1, options := Some o1\<rparr>"
    using h validateQuestion_mcq_eq [OF m o] by (simp add: o1_def a1_def)
  have len: "\<not> length o1 < 4"
    by (simp add: o1_def pad_options_length)
  have sub: "set opts \<subseteq> set o1"
    by (auto simp: o1_def pad_options_subset)
  obtain x xs where xs: "opts = x # xs" using ne by (cases opts) auto
  have fod: "first_or_default o1 = first_or_default opts"
    unfolding o1_def xs using pad_options_first [of x xs] by simp
  have ans: "(if a1 \<in> Some ` set o1 then a1 else Some (first_or_default o1)) = a1"
  proof (cases "answer q \<in> Some ` set opts")
    case True
    then have "a1 \<in> Some ` set o1" using sub by (auto simp: a1_def)
    then show ?thesis by simp
  next
    case False
    then show ?thesis by (simp add: a1_def fod)
  qed
  have m': "qtype q' = ''mcq''" and o': "options q' = Some o1" and a': "answer q' = a1"
    using m by (simp_all add: q')
  have "validateQuestion q' =
          Inr (q'\<lparr>answer := (if a1 \<in> Some ` set o1 then a1 else Some (first_or_default o1)),
                 options := Some (if length o1 < 4 then pad_options o1 else o1)\<rparr>)"
    using validateQuestion_mcq_eq [OF m' o'] by (simp only: a')
  then have "validateQuestion q' = Inr (q'\<lparr>answer := a1, options := Some o1\<rparr>)"
    by (simp only: ans len if_False)
  also have "q'\<lparr>answer := a1, options := Some o1\<rparr> = q'"
    by (simp add: q')
  finally show ?thesis .
qed

lemma validateQuestion_idem_true_false:
  assumes t: "qtype q = ''true_false''" and o: "options q = Some opts"
    and h: "validateQuestion q = Inr q'"
  shows "validateQuestion q' = Inr q'"
proof -
  define a1 where "a1 = (if answer q \<in> Some ` set opts then answer q else Some (first_or_default opts))"
  show ?thesis
  proof (cases "''True'' \<in> set opts")
    case True
    have "validateQuestion q = Inr (q\<lparr>answer := a1\<rparr>)"
      using validateQuestion_true_false_eq [OF t o] True
      by (simp only: a1_def Let_def if_True)
    with h have q': "q' = q\<lparr>answer := a1\<rparr>"
      by simp
    have t': "qtype q' = ''true_false''" and o': "options q' = Some opts" and a': "answer q' = a1"
      using t o by (simp_all add: q')
    have ans: "(if a1 \<in> Some ` set opts then a1 else Some (first_or_default opts)) = a1"
      by (simp add: a1_def)
    have "validateQuestion q' =
            Inr (q'\<lparr>answer := (if a1 \<in> Some ` set opts then a1 else Some (first_or_default opts))\<rparr>)"
      using validateQuestion_true_false_eq [OF t' o'] True by (simp only: a' Let_def if_True)
    then have "validateQuestion q' = Inr (q'\<lparr>answer := a1\<rparr>)"
      by (simp only: ans)
    also have "q'\<lparr>answer := a1\<rparr> = q'"
      by (simp add: q')
    finally show ?thesis .
  next
    case False
    define a2 where "a2 = (if a1 \<noteq> Some ''True'' \<and> a1 \<noteq> Some ''False'' then Some ''True'' else a1)"
    define tf where "tf = [''True'', ''False'']"
    have "validateQuestion q = Inr (q\<lparr>answer := a2, options := Some tf\<rparr>)"
      using validateQuestion_true_false_eq [OF t o] False
      by (simp only: a1_def a2_def tf_def Let_def if_False)
    with h have q': "q' = q\<lparr>answer := a2, options := Some tf\<rparr>"
      by simp
    have t': "qtype q' = ''true_false''" and o': "options q' = Some tf"
      and a': "answer q' = a2"
      using t by (simp_all add: q')
    have "a2 = Some ''True'' \<or> a2 = Some ''False''"
      by (auto simp: a2_def)
    then have ans: "(if a2 \<in> Some ` set tf then a2 else Some (first_or_default tf)) = a2"
      by (auto simp: tf_def)
    have mem: "''True'' \<in> set tf" by (simp add: tf_def)
    have "validateQuestion q' =
            Inr (q'\<lparr>answer := (if a2 \<in> Some ` set tf then a2 else Some (first_or_default tf))\<rparr>)"
      using validateQuestion_true_false_eq [OF t' o'] mem by (simp only: a' Let_def if_True)
    then have "validateQuestion q' = Inr (q'\<lparr>answer := a2\<rparr>)"
      by (simp only: ans)
    also have "q'\<lparr>answer := a2\<rparr> = q'"
      by (simp add: q')
    finally show ?thesis .
  qed
qed

lemma validateQuestion_idem:
  assumes h: "validateQuestion q = Inr q'"
    and ne: "\<not> (qtype q = ''mcq'' \<and> options q = Some [])"
  shows "validateQuestion q' = Inr q'"
proof -
  consider (m) "qtype q = ''mcq''" | (t) "qtype q = ''true_false''"
    | (o) "qtype q \<noteq> ''mcq''" "qtype q \<noteq> ''true_false''" by blast
  then show ?thesis
  proof cases
    case m
    show ?thesis
    proof (cases "options q")
      case None
      with m h show ?thesis by (simp add: validateQuestion_None)
    next
      case (Some opts)
      with ne m have "opts \<noteq> []" by simp
      then show ?thesis by (rule validateQuestion_idem_mcq [OF m Some _ h])
    qed
  next
    case t
    show ?thesis
    proof (cases "options q")
      case None
      with t h show ?thesis by (simp add: validateQuestion_None)
    next
      case (Some opts)
      show ?thesis by (rule validateQuestion_idem_true_false [OF t Some h])
    qed
  next
    case o
    with h show ?thesis by (simp add: validateQuestion_other)
  qed
qed

text \<open>
  C3 (as amended). The validation pass is idempotent on every candidate none of whose
  \<open>mcq\<close> questions has an empty options list: when the pass returns a result for such a
  candidate, the pass applied to that result returns it unchanged.
\<close>

theorem validation_idempotent_unless_empty_mcq:
  assumes "validatedQuestions qs = Inr qs'"
    and "\<forall>q \<in> set qs. qtype q = ''mcq'' \<longrightarrow> options q \<noteq> Some []"
  shows "validatedQuestions qs' = Inr qs'"
  using assms
proof (induction qs arbitrary: qs')
  case Nil
  then show ?case by simp
next
  case (Cons q qs)
  from Cons.prems(1) obtain q1 qs1 where q1: "validateQuestion q = Inr q1"
    and qs1: "validatedQuestions qs = Inr qs1" and eq: "qs' = q1 # qs1"
    by (auto split: sum.splits)
  from Cons.prems(2) have "\<not> (qtype q = ''mcq'' \<and> options q = Some [])" by simp
  with q1 have "validateQuestion q1 = Inr q1" by (rule validateQuestion_idem)
  moreover from Cons.IH [OF qs1] Cons.prems(2) have "validatedQuestions qs1 = Inr qs1" by simp
  ultimately show ?case by (simp add: eq)
qed


text \<open>
  C1 (as amended). When the validation pass returns, every question of type \<open>mcq\<close> in its
  output has an options list that is the input's options followed by placeholders up to
  length 4, so of length at least 4 (and longer when the input had more than 4: nothing
  is cut off). Its answer is an element of that list whenever the input's answer was
  already one of the input's options, or the input's first option is a non-empty string.
\<close>

theorem mcq_at_least_four_options:
  assumes "validatedQuestions qs = Inr qs'" and "i < length qs'" and "qtype (qs' ! i) = ''mcq''"
  shows "\<exists>opts opts'. options (qs ! i) = Some opts \<and> options (qs' ! i) = Some opts' \<and>
           opts' = opts @ map (\<lambda>k. ''Option '' @ show_nat (k + 1)) [length opts..<4] \<and>
           length opts' = max 4 (length opts) \<and>
           ((answer (qs ! i) \<in> Some ` set opts \<or> (\<exists>x xs. opts = x # xs \<and> x \<noteq> [])) \<longrightarrow>
              (\<exists>a. answer (qs' ! i) = Some a \<and> a \<in> set opts'))"
proof -
  from assms(1,2) have i: "i < length qs" by (simp add: validatedQuestions_length)
  with assms(1) have v: "validateQuestion (qs ! i) = Inr (qs' ! i)" by (rule validatedQuestions_nth)
  with assms(3) have m: "qtype (qs ! i) = ''mcq''" by (simp add: validateQuestion_qtype)
  show ?thesis
  proof (cases "options (qs ! i)")
    case None
    with m v show ?thesis by (simp add: validateQuestion_None)
  next
    case (Some opts)
    define opts' where "opts' = (if length opts < 4 then pad_options opts else opts)"
    define a1 where "a1 = (if answer (qs ! i) \<in> Some ` set opts then answer (qs ! i) else Some (first_or_default opts))"
    have q': "qs' ! i = (qs ! i)\<lparr>answer := a1, options := Some opts'\<rparr>"
      using v validateQuestion_mcq_eq [OF m Some] by (simp add: opts'_def a1_def)
    have o': "options (qs' ! i) = Some opts'" and a': "answer (qs' ! i) = a1"
      by (simp_all add: q')
    have len: "length opts' = max 4 (length opts)"
      by (simp add: opts'_def pad_options_length)
    have tk: "opts' = opts @ map (\<lambda>k. ''Option '' @ show_nat (k + 1)) [length opts..<4]"
      by (simp add: opts'_def pad_options_eq)
    have sub: "set opts \<subseteq> set opts'"
      by (auto simp: opts'_def pad_options_subset)
    have ans: "\<exists>a. a1 = Some a \<and> a \<in> set opts'"
      if "answer (qs ! i) \<in> Some ` set opts \<or> (\<exists>x xs. opts = x # xs \<and> x \<noteq> [])"
    proof (cases "answer (qs ! i) \<in> Some ` set opts")
      case True
      then show ?thesis using sub by (auto simp: a1_def)
    next
      case False
      with that obtain x xs where "opts = x # xs" and "x \<noteq> []" by blast
      then have "first_or_default opts \<in> set opts" by (simp add: first_or_default_def)
      with False show ?thesis using sub by (auto simp: a1_def)
    qed
    show ?thesis
      using Some o' len tk ans by (simp add: a')
  qed
qed

text \<open>
  C2 (as amended). When the validation pass returns, every question of type \<open>true_false\<close>
  in its output whose input options did not contain \<open>True\<close>, or were exactly
  \<open>[True, False]\<close>, has the options \<open>[True, False]\<close> and an answer that is \<open>True\<close> or
  \<open>False\<close>. A question whose input options contain \<open>True\<close> keeps its options, and its
  answer is one of them whenever the input's answer was one of them or the first option
  is a non-empty string.
\<close>

theorem true_false_options_and_answer:
  assumes "validatedQuestions qs = Inr qs'" and "i < length qs'"
    and "qtype (qs' ! i) = ''true_false''"
  shows "\<exists>opts opts'. options (qs ! i) = Some opts \<and> options (qs' ! i) = Some opts' \<and>
           ''True'' \<in> set opts' \<and>
           ((''True'' \<notin> set opts \<or> opts = [''True'', ''False'']) \<longrightarrow>
              opts' = [''True'', ''False''] \<and>
              (answer (qs' ! i) = Some ''True'' \<or> answer (qs' ! i) = Some ''False'')) \<and>
           (''True'' \<in> set opts \<longrightarrow>
              opts' = opts \<and>
              ((answer (qs ! i) \<in> Some ` set opts \<or> (\<exists>x xs. opts = x # xs \<and> x \<noteq> [])) \<longrightarrow>
                 (\<exists>a. answer (qs' ! i) = Some a \<and> a \<in> set opts')))"
proof -
  from assms(1,2) have i: "i < length qs" by (simp add: validatedQuestions_length)
  with assms(1) have v: "validateQuestion (qs ! i) = Inr (qs' ! i)" by (rule validatedQuestions_nth)
  with assms(3) have t: "qtype (qs ! i) = ''true_false''" by (simp add: validateQuestion_qtype)
  show ?thesis
  proof (cases "options (qs ! i)")
    case None
    with t v show ?thesis by (simp add: validateQuestion_None)
  next
    case (Some opts)
    define a1 where "a1 = (if answer (qs ! i) \<in> Some ` set opts then answer (qs ! i) else Some (first_or_default opts))"
    show ?thesis
    proof (cases "''True'' \<in> set opts")
      case True
      have "validateQuestion (qs ! i) = Inr ((qs ! i)\<lparr>answer := a1\<rparr>)"
        using validateQuestion_true_false_eq [OF t Some] True
        by (simp only: a1_def Let_def if_True)
      with v have q': "qs' ! i = (qs ! i)\<lparr>answer := a1\<rparr>" by simp
      have o': "options (qs' ! i) = Some opts" and a': "answer (qs' ! i) = a1"
        using Some by (simp_all add: q')
      have tf: "a1 = Some ''True'' \<or> a1 = Some ''False''" if "opts = [''True'', ''False'']"
        using that by (auto simp: a1_def first_or_default_def)
      have mem: "\<exists>a. a1 = Some a \<and> a \<in> set opts"
        if "answer (qs ! i) \<in> Some ` set opts \<or> (\<exists>x xs. opts = x # xs \<and> x \<noteq> [])"
      proof (cases "answer (qs ! i) \<in> Some ` set opts")
        case True
        then show ?thesis by (auto simp: a1_def)
      next
        case False
        with that obtain x xs where "opts = x # xs" and "x \<noteq> []" by blast
        then have "first_or_default opts \<in> set opts" by (simp add: first_or_default_def)
        with False show ?thesis by (simp add: a1_def)
      qed
      show ?thesis
        using Some o' True tf mem by (auto simp: a')
    next
      case False
      define a2 where "a2 = (if a1 \<noteq> Some ''True'' \<and> a1 \<noteq> Some ''False'' then Some ''True'' else a1)"
      have "validateQuestion (qs ! i) = Inr ((qs ! i)\<lparr>answer := a2, options := Some [''True'', ''False'']\<rparr>)"
        using validateQuestion_true_false_eq [OF t Some] False
        by (simp only: a1_def a2_def Let_def if_False)
      with v have q': "qs' ! i = (qs ! i)\<lparr>answer := a2, options := Some [''True'', ''False'']\<rparr>"
        by simp
      have "a2 = Some ''True'' \<or> a2 = Some ''False''" by (auto simp: a2_def)
      with Some False show ?thesis by (simp add: q')
    qed
  qed
qed

text \<open>
  C1 as stated fails: an \<open>mcq\<close> question with five options keeps all five, and an \<open>mcq\<close>
  question with no options ends with the answer \<open>No answer provided\<close>, which is none of
  its four placeholder options.
\<close>

theorem mcq_four_options_counterexample:
  "validatedQuestions
     [\<lparr>qtext = ''Q1'', qtype = ''mcq'', options = Some [''a'', ''b'', ''c'', ''d'', ''e''],
       answer = Some ''a''\<rparr>,
      \<lparr>qtext = ''Q2'', qtype = ''mcq'', options = Some [], answer = Some ''a''\<rparr>]
   = Inr
     [\<lparr>qtext = ''Q1'', qtype = ''mcq'', options = Some [''a'', ''b'', ''c'', ''d'', ''e''],
       answer = Some ''a''\<rparr>,
      \<lparr>qtext = ''Q2'', qtype = ''mcq'',
       options = Some [''Option 1'', ''Option 2'', ''Option 3'', ''Option 4''],
       answer = Some ''No answer provided''\<rparr>]
   \<and> length [''a'', ''b'', ''c'', ''d'', ''e''] \<noteq> 4
   \<and> ''No answer provided'' \<notin> set [''Option 1'', ''Option 2'', ''Option 3'', ''Option 4'']"
  by code_simp

text \<open>The amended C1 at a question with two options and an answer that is neither.\<close>

theorem mcq_at_least_four_options_witness:
  "validatedQuestions
     [\<lparr>qtext = ''Q'', qtype = ''mcq'', options = Some [''a'', ''b''], answer = Some ''z''\<rparr>]
   = Inr [\<lparr>qtext = ''Q'', qtype = ''mcq'',
            options = Some [''a'', ''b'', ''Option 3'', ''Option 4''], answer = Some ''a''\<rparr>]
   \<and> (\<exists>opts opts'. options \<lparr>qtext = ''Q'', qtype = ''mcq'', options = Some [''a'', ''b''], answer = Some ''z''\<rparr> = Some opts \<and>
         Some [''a'', ''b'', ''Option 3'', ''Option 4''] = Some opts' \<and>
         opts' = opts @ map (\<lambda>k. ''Option '' @ show_nat (k + 1)) [length opts..<4] \<and>
         length opts' = max 4 (length opts) \<and>
         (\<exists>a. Some ''a'' = Some a \<and> a \<in> set opts'))"
proof -
  let ?q = "\<lparr>qtext = ''Q'', qtype = ''mcq'', options = Some [''a'', ''b''], answer = Some ''z''\<rparr>"
  let ?q' = "\<lparr>qtext = ''Q'', qtype = ''mcq'',
            options = Some [''a'', ''b'', ''Option 3'', ''Option 4''], answer = Some ''a''\<rparr>"
  have v: "validatedQuestions [?q] = Inr [?q']" by code_simp
  have l: "0 < length [?q']" by simp
  have t: "qtype ([?q'] ! 0) = ''mcq''" by simp
  from mcq_at_least_four_options [OF v l t] v show ?thesis by simp
qed

text \<open>
  C2 as stated fails: a \<open>true_false\<close> question whose options contain \<open>True\<close> keeps its
  options, here three of them, and its answer \<open>Maybe\<close>, which is one of them.
\<close>

theorem true_false_options_counterexample:
  "validatedQuestions
     [\<lparr>qtext = ''Q'', qtype = ''true_false'', options = Some [''True'', ''Maybe'', ''False''],
       answer = Some ''Maybe''\<rparr>]
   = Inr
     [\<lparr>qtext = ''Q'', qtype = ''true_false'', options = Some [''True'', ''Maybe'', ''False''],
       answer = Some ''Maybe''\<rparr>]
   \<and> [''True'', ''Maybe'', ''False''] \<noteq> [''True'', ''False'']
   \<and> ''Maybe'' \<noteq> ''True'' \<and> ''Maybe'' \<noteq> ''False''"
  by code_simp

text \<open>The amended C2 at three questions: the options \<open>[True, False]\<close> with the answer
  \<open>Yes\<close>, the options \<open>[Yes, No]\<close>, and the options \<open>[True, Maybe]\<close> with an answer that is
  neither.\<close>

theorem true_false_options_and_answer_witness:
  "validatedQuestions
     [\<lparr>qtext = ''A'', qtype = ''true_false'', options = Some [''True'', ''False''],
       answer = Some ''Yes''\<rparr>,
      \<lparr>qtext = ''B'', qtype = ''true_false'', options = Some [''Yes'', ''No''],
       answer = Some ''Yes''\<rparr>,
      \<lparr>qtext = ''C'', qtype = ''true_false'', options = Some [''True'', ''Maybe''],
       answer = Some ''No''\<rparr>]
   = Inr
     [\<lparr>qtext = ''A'', qtype = ''true_false'', options = Some [''True'', ''False''],
       answer = Some ''True''\<rparr>,
      \<lparr>qtext = ''B'', qtype = ''true_false'', options = Some [''True'', ''False''],
       answer = Some ''True''\<rparr>,
      \<lparr>qtext = ''C'', qtype = ''true_false'', options = Some [''True'', ''Maybe''],
       answer = Some ''True''\<rparr>]
   \<and> (\<exists>opts'. Some [''True'', ''False''] = Some opts' \<and> ''True'' \<in> set opts' \<and>
         opts' = [''True'', ''False''] \<and>
         (Some ''True'' = Some ''True'' \<or> Some ''True'' = Some ''False''))
   \<and> (\<exists>opts'. Some [''True'', ''Maybe''] = Some opts' \<and> ''True'' \<in> set opts' \<and>
         opts' = [''True'', ''Maybe''] \<and> (\<exists>a. Some ''True'' = Some a \<and> a \<in> set opts'))"
proof -
  let ?qs = "[\<lparr>qtext = ''A'', qtype = ''true_false'', options = Some [''True'', ''False''],
       answer = Some ''Yes''\<rparr>,
      \<lparr>qtext = ''B'', qtype = ''true_false'', options = Some [''Yes'', ''No''],
       answer = Some ''Yes''\<rparr>,
      \<lparr>qtext = ''C'', qtype = ''true_false'', options = Some [''True'', ''Maybe''],
       answer = Some ''No''\<rparr>]"
  let ?qs' = "[\<lparr>qtext = ''A'', qtype = ''true_false'', options = Some [''True'', ''False''],
       answer = Some ''True''\<rparr>,
      \<lparr>qtext = ''B'', qtype = ''true_false'', options = Some [''True'', ''False''],
       answer = Some ''True''\<rparr>,
      \<lparr>qtext = ''C'', qtype = ''true_false'', options = Some [''True'', ''Maybe''],
       answer = Some ''True''\<rparr>]"
  have v: "validatedQuestions ?qs = Inr ?qs'" by code_simp
  have l0: "0 < length ?qs'" and l2: "2 < length ?qs'" by simp_all
  have t0: "qtype (?qs' ! 0) = ''true_false''" and t2: "qtype (?qs' ! 2) = ''true_false''"
    by simp_all
  from true_false_options_and_answer [OF v l0 t0]
  have a: "\<exists>opts'. Some [''True'', ''False''] = Some opts' \<and> ''True'' \<in> set opts' \<and>
         opts' = [''True'', ''False''] \<and>
         (Some ''True'' = Some ''True'' \<or> Some ''True'' = Some ''False'')"
    by simp
  from true_false_options_and_answer [OF v l2 t2]
  have b: "\<exists>opts'. Some [''True'', ''Maybe''] = Some opts' \<and> ''True'' \<in> set opts' \<and>
         opts' = [''True'', ''Maybe''] \<and> (\<exists>a. Some ''True'' = Some a \<and> a \<in> set opts')"
    by simp
  from v a b show ?thesis by blast
qed

text \<open>
  C3 as stated fails on an \<open>mcq\<close> question with no options: the first pass sets the answer
  to \<open>No answer provided\<close> and then adds the four placeholders; the second pass finds that
  answer missing from the options and replaces it by \<open>Option 1\<close>.
\<close>

theorem validation_idempotent_counterexample:
  "validatedQuestions
     [\<lparr>qtext = ''Q'', qtype = ''mcq'', options = Some [], answer = Some ''a''\<rparr>]
   = Inr [\<lparr>qtext = ''Q'', qtype = ''mcq'',
            options = Some [''Option 1'', ''Option 2'', ''Option 3'', ''Option 4''],
            answer = Some ''No answer provided''\<rparr>]
   \<and> validatedQuestions
     [\<lparr>qtext = ''Q'', qtype = ''mcq'',
       options = Some [''Option 1'', ''Option 2'', ''Option 3'', ''Option 4''],
       answer = Some ''No answer provided''\<rparr>]
   = Inr [\<lparr>qtext = ''Q'', qtype = ''mcq'',
            options = Some [''Option 1'', ''Option 2'', ''Option 3'', ''Option 4''],
            answer = Some ''Option 1''\<rparr>]
   \<and> ''No answer provided'' \<noteq> ''Option 1''"
  by code_simp

text \<open>The amended C3 at a question with two options.\<close>

theorem validation_idempotent_witness:
  "validatedQuestions
     [\<lparr>qtext = ''Q'', qtype = ''mcq'', options = Some [''a'', ''b''], answer = Some ''z''\<rparr>]
   = Inr [\<lparr>qtext = ''Q'', qtype = ''mcq'',
            options = Some [''a'', ''b'', ''Option 3'', ''Option 4''], answer = Some ''a''\<rparr>]
   \<and> validatedQuestions
     [\<lparr>qtext = ''Q'', qtype = ''mcq'',
       options = Some [''a'', ''b'', ''Option 3'', ''Option 4''], answer = Some ''a''\<rparr>]
   = Inr [\<lparr>qtext = ''Q'', qtype = ''mcq'',
            options = Some [''a'', ''b'', ''Option 3'', ''Option 4''], answer = Some ''a''\<rparr>]"
proof -
  let ?q = "\<lparr>qtext = ''Q'', qtype = ''mcq'', options = Some [''a'', ''b''], answer = Some ''z''\<rparr>"
  let ?q' = "\<lparr>qtext = ''Q'', qtype = ''mcq'',
            options = Some [''a'', ''b'', ''Option 3'', ''Option 4''], answer = Some ''a''\<rparr>"
  have v: "validatedQuestions [?q] = Inr [?q']" by code_simp
  have ne: "\<forall>q \<in> set [?q]. qtype q = ''mcq'' \<longrightarrow> options q \<noteq> Some []" by simp
  from validation_idempotent_unless_empty_mcq [OF v ne] v show ?thesis by simp
qed

section \<open>The effective question count\<close>

text \<open>Rendering an integer and reading it back with \<open>parseInt\<close> gives the integer.\<close>

lemma digit_char_code: "d < 10 \<Longrightarrow> (of_char (digit_char d) :: nat) = 48 + d"
proof -
  assume "d < 10"
  then consider "d = 0" | "d = 1" | "d = 2" | "d = 3" | "d = 4" | "d = 5" | "d = 6" | "d = 7"
    | "d = 8" | "d = 9" by atomize_elim arith
  then show ?thesis by cases (simp_all add: digit_char_def)
qed

lemma code_units_append: "code_units (xs @ ys) = code_units xs @ code_units ys"
  by (simp add: code_units_def)

lemma show_nat_decimal: "\<forall>u \<in> set (code_units (show_nat n)). 48 \<le> u \<and> u \<le> 57"
proof (induction n rule: show_nat.induct)
  case (1 n)
  show ?case
  proof (cases "n < 10")
    case True
    then show ?thesis
      by (subst show_nat.simps) (simp add: code_units_def digit_char_code)
  next
    case False
    have "n mod 10 < 10" by simp
    then have "(of_char (digit_char (n mod 10)) :: nat) = 48 + n mod 10"
      by (rule digit_char_code)
    with False 1 show ?thesis
      by (subst show_nat.simps) (auto simp: code_units_def)
  qed
qed

lemma show_nat_nonempty: "code_units (show_nat n) \<noteq> []"
  by (subst show_nat.simps) (simp add: code_units_def)

lemma digits_value_append:
  "digits_value r (xs @ [c]) = r * digits_value r xs + digit_value c"
  by (simp add: digits_value_def)

lemma digits_value_show_nat: "digits_value 10 (code_units (show_nat n)) = n"
proof (induction n rule: show_nat.induct)
  case (1 n)
  show ?case
  proof (cases "n < 10")
    case True
    then show ?thesis
      by (subst show_nat.simps)
         (simp add: digits_value_def code_units_def digit_char_code digit_value_def)
  next
    case False
    have "n mod 10 < 10" by simp
    then have c: "(of_char (digit_char (n mod 10)) :: nat) = 48 + n mod 10"
      by (rule digit_char_code)
    from False 1 have ih: "digits_value 10 (code_units (show_nat (n div 10))) = n div 10"
      by simp
    have "show_nat n = show_nat (n div 10) @ [digit_char (n mod 10)]"
      using False by (subst show_nat.simps) simp
    then have "code_units (show_nat n) = code_units (show_nat (n div 10)) @ [48 + n mod 10]"
      using c by (simp add: code_units_def)
    moreover have "digit_value (48 + n mod 10) = n mod 10"
      by (simp add: digit_value_def)
    ultimately show ?thesis
      by (simp add: digits_value_append ih)
  qed
qed

lemma decimal_not_ws: "48 \<le> u \<Longrightarrow> u \<le> 57 \<Longrightarrow> \<not> is_ws u"
  by (auto simp: is_ws_def)

lemma decimal_is_digit: "48 \<le> u \<Longrightarrow> u \<le> 57 \<Longrightarrow> is_digit 10 u"
  by (simp add: is_digit_def digit_value_def)

lemma parseInt_decimal:
  assumes ne: "ds \<noteq> []" and dec: "\<forall>u \<in> set ds. 48 \<le> u \<and> u \<le> 57"
  shows "parseInt ds = Some (int (digits_value 10 ds))"
    and "parseInt (45 # ds) = Some (- int (digits_value 10 ds))"
proof -
  obtain d cs where eq: "ds = d # cs" using ne by (cases ds) auto
  from dec eq have d: "48 \<le> d" "d \<le> 57" by auto
  have ws: "dropWhile is_ws ds = ds"
    using d by (simp add: eq decimal_not_ws)
  have sign: "take 1 ds \<noteq> code_units ''-''" "take 1 ds \<noteq> code_units ''+''"
    using d by (auto simp: eq code_units_def)
  have hex: "take 2 ds \<noteq> code_units ''0x''" "take 2 ds \<noteq> code_units ''0X''"
  proof -
    show "take 2 ds \<noteq> code_units ''0x''"
    proof (cases cs)
      case Nil
      then show ?thesis by (simp add: eq code_units_def)
    next
      case (Cons c cs')
      with dec eq have "48 \<le> c \<and> c \<le> 57" by auto
      then show ?thesis by (auto simp: eq Cons code_units_def)
    qed
    show "take 2 ds \<noteq> code_units ''0X''"
    proof (cases cs)
      case Nil
      then show ?thesis by (simp add: eq code_units_def)
    next
      case (Cons c cs')
      with dec eq have "48 \<le> c \<and> c \<le> 57" by auto
      then show ?thesis by (auto simp: eq Cons code_units_def)
    qed
  qed
  have tw: "takeWhile (is_digit 10) ds = ds"
    using dec by (auto simp: takeWhile_eq_all_conv decimal_is_digit)
  show "parseInt ds = Some (int (digits_value 10 ds))"
    unfolding parseInt_def Let_def ws
    using sign hex ne by (simp add: tw)
  have minus: "code_units ''-'' = [45]" "code_units ''+'' = [43]"
    by (simp_all add: code_units_def)
  have nws: "\<not> is_ws 45" by (simp add: is_ws_def)
  show "parseInt (45 # ds) = Some (- int (digits_value 10 ds))"
    unfolding parseInt_def Let_def
    using hex ne nws by (simp add: tw minus)
qed

lemma parseInt_show_int: "parseInt (code_units (show_int i)) = Some i"
proof (cases "i < 0")
  case False
  then show ?thesis
    using parseInt_decimal(1) [OF show_nat_nonempty [of "nat i"] show_nat_decimal [of "nat i"]]
    by (simp add: show_int_def digits_value_show_nat)
next
  case True
  have "code_units (show_int i) = 45 # code_units (show_nat (nat (- i)))"
    using True by (simp add: show_int_def code_units_def)
  then show ?thesis
    using True parseInt_decimal(2) [OF show_nat_nonempty [of "nat (- i)"]
        show_nat_decimal [of "nat (- i)"]]
    by (simp add: digits_value_show_nat)
qed

text \<open>
  C4 (as amended). For every integer \<open>numberOfQuestions\<close> other than 0, given as its
  decimal digits, the effective question count is the input clamped to the interval
  from 1 to 50; for the input 0, for an input in which \<open>parseInt\<close> finds no leading
  integer, and for a missing input, the effective count is 5. In general the count is the
  clamped value of whatever non-zero integer \<open>parseInt\<close> reads at the start of the input.
\<close>

theorem questionCount_clamps_nonzero_integers:
  "(i \<noteq> 0 \<longrightarrow> questionCount (Some (code_units (show_int i))) = max 1 (min 50 i)) \<and>
   questionCount (Some (code_units (show_int 0))) = 5 \<and>
   questionCount None = 5 \<and>
   (parseInt s = None \<longrightarrow> questionCount (Some s) = 5) \<and>
   (\<forall>k. parseInt s = Some k \<and> k \<noteq> 0 \<longrightarrow> questionCount (Some s) = max 1 (min 50 k))"
  by (simp add: questionCount_def parseInt_show_int)

text \<open>
  C4 as stated fails at the input 0: clamping 0 to the interval gives 1, and the
  effective count is 5, because \<open>parseInt(0) || 5\<close> takes the default for the falsy 0.
\<close>

theorem questionCount_zero_counterexample:
  "show_int 0 = ''0'' \<and> questionCount (Some (code_units ''0'')) = 5 \<and>
   max 1 (min 50 (0::int)) = 1"
proof -
  have "show_int 0 = ''0''" by code_simp
  moreover have "parseInt (code_units ''0'') = Some 0"
    by (simp add: parseInt_def code_units_def is_ws_def is_digit_def digit_value_def
        digits_value_def Let_def)
  then have "questionCount (Some (code_units ''0'')) = 5"
    by (simp add: questionCount_def)
  ultimately show ?thesis by simp
qed

text \<open>The amended C4 at 77, at -3, at a text with no number, at a text that starts
  with a number, and at the digit 7 after a no-break space and an em space.\<close>

theorem questionCount_clamps_witness:
  "(77::int) \<noteq> 0 \<and> questionCount (Some (code_units (show_int 77))) = 50 \<and>
   (- 3::int) \<noteq> 0 \<and> questionCount (Some (code_units (show_int (- 3)))) = 1 \<and>
   parseInt (code_units ''abc'') = None \<and> questionCount (Some (code_units ''abc'')) = 5 \<and>
   parseInt (code_units ''12 questions'') = Some 12 \<and>
   questionCount (Some (code_units ''12 questions'')) = 12 \<and>
   parseInt (0xA0 # 0x2003 # code_units ''7'') = Some 7 \<and>
   questionCount (Some (0xA0 # 0x2003 # code_units ''7'')) = 7"
proof -
  have p: "parseInt (code_units ''abc'') = None"
    by (simp add: parseInt_def code_units_def is_ws_def is_digit_def digit_value_def
        digits_value_def Let_def)
  have q: "parseInt (code_units ''12 questions'') = Some 12"
    by (simp add: parseInt_def code_units_def is_ws_def is_digit_def digit_value_def
        digits_value_def Let_def)
  have r: "parseInt (0xA0 # 0x2003 # code_units ''7'') = Some 7"
    by (simp add: parseInt_def code_units_def is_ws_def is_digit_def digit_value_def
        digits_value_def Let_def)
  from questionCount_clamps_nonzero_integers [of 77 "code_units ''abc''"]
       questionCount_clamps_nonzero_integers [of "- 3" "code_units ''12 questions''"]
       questionCount_clamps_nonzero_integers [of 1 "0xA0 # 0x2003 # code_units ''7''"] p q r
  show ?thesis by simp
qed

section \<open>Properties of the handlers\<close>

lemma respond_to_text_success:
  assumes "success (respond_to_text e qc raw)"
  shows "\<exists>aiJson qs vqs.
           JSON_parse e (json_span (clean_text raw)) = Inr aiJson \<and>
           cand_questions aiJson = Some qs \<and>
           validatedQuestions qs = Inr vqs \<and>
           respond_to_text e qc raw =
             \<lparr>status = 200, success = True,
              message = Some (responseMessage (int (length vqs)) qc),
              error = None, rawText = None,
              data = Some (PreviewQuiz (cand_title aiJson) vqs 10),
              preview = True\<rparr>"
proof -
  let ?txt = "clean_text raw"
  have braces: "\<not> (indexOf (of_char CHR ''{'') ?txt = - 1 \<or> lastIndexOf (of_char CHR ''}'') ?txt = - 1)"
    using assms by (auto simp: respond_to_text_def Let_def failure_def)
  show ?thesis
  proof (cases "JSON_parse e (json_span ?txt)")
    case (Inl msg)
    with braces assms show ?thesis
      by (simp add: respond_to_text_def Let_def failure_def failure_with_def)
  next
    case (Inr aiJson)
    show ?thesis
    proof (cases "cand_questions aiJson")
      case None
      with Inr braces assms show ?thesis
        by (simp add: respond_to_text_def Let_def failure_def failure_with_def)
    next
      case (Some qs)
      show ?thesis
      proof (cases "validatedQuestions qs")
        case (Inl err)
        with Some Inr braces assms show ?thesis
          by (simp add: respond_to_text_def Let_def failure_def failure_with_def)
      next
        case vq: (Inr vqs)
        with Some Inr braces show ?thesis
          by (simp add: respond_to_text_def Let_def)
      qed
    qed
  qed
qed

lemma failure_not_success [simp]: "\<not> success (failure c m)" "\<not> success (failure_with c m x)"
  by (simp_all add: failure_def failure_with_def)

lemma failure_no_data [simp]: "data (failure c m) = None" "data (failure_with c m x) = None"
  by (simp_all add: failure_def failure_with_def)

lemma generateQuiz_success:
  assumes "success (generateQuiz e req)"
  shows "\<exists>p raw. prompt (gen_body req) = Some p \<and> p \<noteq> [] \<and>
           truthy (adminId_of (gen_user req)) \<and> truthy (apiKey e) \<and>
           generateContent e
             \<lparr>pp_topic = p, pp_quizType = quizType (gen_body req),
              pp_questionCount = questionCount (numberOfQuestions (gen_body req))\<rparr> = Inr raw \<and>
           generateQuiz e req =
             respond_to_text e (questionCount (numberOfQuestions (gen_body req))) raw"
proof (cases "prompt (gen_body req)")
  case None
  with assms show ?thesis by (simp add: generateQuiz_def)
next
  case (Some p)
  let ?pp = "\<lparr>pp_topic = p, pp_quizType = quizType (gen_body req),
              pp_questionCount = questionCount (numberOfQuestions (gen_body req))\<rparr>"
  have p: "p \<noteq> []"
  proof (rule ccontr)
    assume "\<not> p \<noteq> []"
    with Some assms show False by (simp add: generateQuiz_def)
  qed
  have a: "truthy (adminId_of (gen_user req))"
  proof (rule ccontr)
    assume "\<not> truthy (adminId_of (gen_user req))"
    with Some p assms show False by (simp add: generateQuiz_def)
  qed
  have k: "truthy (apiKey e)"
  proof (rule ccontr)
    assume "\<not> truthy (apiKey e)"
    with Some p a assms show False by (simp add: generateQuiz_def Let_def)
  qed
  show ?thesis
  proof (cases "generateContent e ?pp")
    case (Inl cause)
    with Some p a k assms show ?thesis by (simp add: generateQuiz_def Let_def)
  next
    case (Inr raw)
    with Some p a k show ?thesis by (simp add: generateQuiz_def Let_def)
  qed
qed

text \<open>
  C5. On a successful generation the advisory message is chosen three ways from the
  effective requested count and the number of questions returned: equal counts give the
  "generated successfully" message; fewer returned than requested gives the message
  with the shortfall N, "N question(s) short", and the advice to add questions manually
  or regenerate; more returned than requested gives the message with the excess N,
  "N extra question(s)", and the advice to remove extras.
\<close>

theorem advisory_message_three_way:
  assumes "success (generateQuiz e req)"
  shows "\<exists>t vqs. data (generateQuiz e req) = Some (PreviewQuiz t vqs 10) \<and>
           (let actual = int (length vqs);
                requested = questionCount (numberOfQuestions (gen_body req))
            in (actual = requested \<longrightarrow>
                  message (generateQuiz e req) =
                    Some ''Quiz generated successfully. Review and save when ready.'') \<and>
               (actual < requested \<longrightarrow>
                  message (generateQuiz e req) =
                    Some (''AI generated '' @ show_int actual @ '' questions (requested ''
                          @ show_int requested @ ''). '' @ show_int (requested - actual)
                          @ '' question'' @ (if requested - actual > 1 then ''s'' else [])
                          @ '' short. You can add more questions manually or regenerate.'')) \<and>
               (actual > requested \<longrightarrow>
                  message (generateQuiz e req) =
                    Some (''AI generated '' @ show_int actual @ '' questions (requested ''
                          @ show_int requested @ ''). '' @ show_int (actual - requested)
                          @ '' extra question'' @ (if actual - requested > 1 then ''s'' else [])
                          @ ''. You can remove extras if needed.'')))"
proof -
  let ?qc = "questionCount (numberOfQuestions (gen_body req))"
  from generateQuiz_success [OF assms] obtain p raw
    where g: "generateQuiz e req = respond_to_text e ?qc raw" by blast
  with assms have "success (respond_to_text e ?qc raw)" by simp
  from respond_to_text_success [OF this] obtain aiJson qs vqs where
    "JSON_parse e (json_span (clean_text raw)) = Inr aiJson"
    and "cand_questions aiJson = Some qs" and "validatedQuestions qs = Inr vqs" and
    r: "respond_to_text e ?qc raw =
             \<lparr>status = 200, success = True,
              message = Some (responseMessage (int (length vqs)) ?qc),
              error = None, rawText = None,
              data = Some (PreviewQuiz (cand_title aiJson) vqs 10),
              preview = True\<rparr>" by blast
  have d: "data (generateQuiz e req) = Some (PreviewQuiz (cand_title aiJson) vqs 10)"
    and m: "message (generateQuiz e req) = Some (responseMessage (int (length vqs)) ?qc)"
    by (simp_all add: g r)
  show ?thesis
    unfolding d m by (simp add: responseMessage_def Let_def)
qed

lemma example_generateQuiz:
  "generateQuiz example_env example_gen_request =
    \<lparr>status = 200, success = True,
     message = Some ''AI generated 3 questions (requested 5). 2 questions short. You can add more questions manually or regenerate.'',
     error = None, rawText = None,
     data = Some (PreviewQuiz (Some ''Numbers'')
         [\<lparr>qtext = ''2 + 2?'', qtype = ''mcq'',
             options = Some [''3'', ''4'', ''Option 3'', ''Option 4''],
             answer = Some ''4''\<rparr>,
          \<lparr>qtext = ''Is 7 prime?'', qtype = ''true_false'',
             options = Some [''True'', ''False''], answer = Some ''True''\<rparr>,
          \<lparr>qtext = ''Name a prime.'', qtype = ''short_answer'', options = Some [],
             answer = Some ''2''\<rparr>] 10),
     preview = True\<rparr>"
proof -
  have qc: "questionCount None = 5"
    by (simp add: questionCount_def parseInt_show_int)
  have ct: "clean_text (code_units ''```json {} ```'') = code_units ''{}''"
    by (simp add: clean_text_def code_units_def trim_def is_ws_def)
  have fb: "indexOf (of_char CHR ''{'') (code_units ''{}'') = 0"
    by (simp add: indexOf_def code_units_def)
  have lb: "lastIndexOf (of_char CHR ''}'') (code_units ''{}'') = 1"
    by (simp add: lastIndexOf_def code_units_def)
  have js: "json_span (code_units ''{}'') = code_units ''{}''"
    by (simp add: json_span_def code_units_def indexOf_def lastIndexOf_def substring_def Let_def)
  have vq: "validatedQuestions example_questions =
    Inr [\<lparr>qtext = ''2 + 2?'', qtype = ''mcq'',
             options = Some [''3'', ''4'', ''Option 3'', ''Option 4''],
             answer = Some ''4''\<rparr>,
          \<lparr>qtext = ''Is 7 prime?'', qtype = ''true_false'',
             options = Some [''True'', ''False''], answer = Some ''True''\<rparr>,
          \<lparr>qtext = ''Name a prime.'', qtype = ''short_answer'', options = Some [],
             answer = Some ''2''\<rparr>]"
    by code_simp
  have msg: "responseMessage 3 5 = ''AI generated 3 questions (requested 5). 2 questions short. You can add more questions manually or regenerate.''"
    by code_simp
  have a: "truthy (adminId_of admin1)"
    by (simp add: admin1_def adminId_of_def js_or_def truthy_def)
  have k: "truthy (apiKey example_env)"
    by (simp add: example_env_def truthy_def)
  have g: "\<And>pp. generateContent example_env pp = Inr (code_units ''```json {} ```'')"
    by (simp add: example_env_def)
  have jp: "JSON_parse example_env (code_units ''{}'') = Inr example_candidate"
    by (simp add: example_env_def)
  have r: "respond_to_text example_env 5 (code_units ''```json {} ```'') =
    \<lparr>status = 200, success = True,
     message = Some ''AI generated 3 questions (requested 5). 2 questions short. You can add more questions manually or regenerate.'',
     error = None, rawText = None,
     data = Some (PreviewQuiz (Some ''Numbers'')
         [\<lparr>qtext = ''2 + 2?'', qtype = ''mcq'',
             options = Some [''3'', ''4'', ''Option 3'', ''Option 4''],
             answer = Some ''4''\<rparr>,
          \<lparr>qtext = ''Is 7 prime?'', qtype = ''true_false'',
             options = Some [''True'', ''False''], answer = Some ''True''\<rparr>,
          \<lparr>qtext = ''Name a prime.'', qtype = ''short_answer'', options = Some [],
             answer = Some ''2''\<rparr>] 10),
     preview = True\<rparr>"
    unfolding respond_to_text_def Let_def ct fb lb js jp
    by (simp add: example_candidate_def vq msg)
  show ?thesis
    unfolding generateQuiz_def example_gen_request_def
    by (simp add: a k g qc Let_def r)
qed

text \<open>C5 at a request for the default 5 questions answered with 3.\<close>

theorem advisory_message_witness:
  "success (generateQuiz example_env example_gen_request) \<and>
   questionCount (numberOfQuestions (gen_body example_gen_request)) = 5 \<and>
   (\<exists>t vqs. data (generateQuiz example_env example_gen_request) = Some (PreviewQuiz t vqs 10) \<and>
      length vqs = 3) \<and>
   message (generateQuiz example_env example_gen_request) =
     Some ''AI generated 3 questions (requested 5). 2 questions short. You can add more questions manually or regenerate.''"
proof -
  note ev = example_generateQuiz
  have s: "success (generateQuiz example_env example_gen_request)"
    by (simp add: ev)
  have q: "questionCount (numberOfQuestions (gen_body example_gen_request)) = 5"
    by (simp add: example_gen_request_def questionCount_def parseInt_show_int)
  from advisory_message_three_way [OF s] s q show ?thesis
    by (simp add: ev)
qed


lemma replace_doc_keys: "fst ` set (replace_doc st i d) = fst ` set st"
  by (induction st) (auto simp: replace_doc_def)

lemma findByIdAndDelete_keys: "fst ` set (findByIdAndDelete st i) \<subseteq> fst ` set st"
  by (auto simp: findByIdAndDelete_def)

lemma getQuizzes_store: "snd (getQuizzes e st req) = st"
  by (simp add: getQuizzes_def Let_def split: option.splits)

lemma getQuizById_store: "snd (getQuizById st req) = st"
  by (simp add: getQuizById_def split: option.splits)

lemma deleteQuiz_store:
  "snd (deleteQuiz st req) = st \<or> snd (deleteQuiz st req) = findByIdAndDelete st (req_id req)"
  by (simp add: deleteQuiz_def split: option.splits)

lemma updateQuiz_store:
  "snd (updateQuiz e st req) = st \<or>
   (\<exists>d. snd (updateQuiz e st req) = replace_doc st (upd_id req) d)"
  by (auto simp: updateQuiz_def Let_def split: option.splits)

lemma createManualQuiz_created:
  assumes "status (fst (createManualQuiz e st req)) = 201"
  shows "\<exists>t qs a.
           body_title (new_body req) = Some t \<and> t \<noteq> [] \<and>
           body_questions (new_body req) = Some qs \<and> qs \<noteq> [] \<and>
           adminId_of (new_user req) = Some a \<and> a \<noteq> [] \<and>
           newObjectId e st \<notin> fst ` set st \<and>
           snd (createManualQuiz e st req) =
             st @ [(newObjectId e st,
                    \<lparr>title = t, questions = qs,
                     timeLimit = (case body_timeLimit (new_body req) of
                                    None \<Rightarrow> 10
                                  | Some lim \<Rightarrow> if lim = 0 then 10 else lim),
                     adminId = a,
                     weightage = default_weightage e,
                     weightageType = default_weightageType e\<rparr>)]"
proof (cases "body_title (new_body req)")
  case None
  with assms show ?thesis by (simp add: createManualQuiz_def failure_def)
next
  case t: (Some t)
  show ?thesis
  proof (cases "body_questions (new_body req)")
    case None
    with t assms show ?thesis by (simp add: createManualQuiz_def failure_def)
  next
    case qs: (Some qs)
    show ?thesis
    proof (cases "t = [] \<or> qs = []")
      case True
      with t qs assms show ?thesis by (auto simp: createManualQuiz_def failure_def)
    next
      case ne: False
      show ?thesis
      proof (cases "adminId_of (new_user req)")
        case None
        with t qs ne assms show ?thesis by (simp add: createManualQuiz_def failure_def)
      next
        case a: (Some a)
        show ?thesis
        proof (cases "a = []")
          case True
          with a t qs ne assms show ?thesis by (simp add: createManualQuiz_def failure_def)
        next
          case an: False
          let ?d = "\<lparr>title = t, questions = qs,
                     timeLimit = (case body_timeLimit (new_body req) of
                                    None \<Rightarrow> 10
                                  | Some lim \<Rightarrow> if lim = 0 then 10 else lim),
                     adminId = a,
                     weightage = default_weightage e,
                     weightageType = default_weightageType e\<rparr>"
          show ?thesis
          proof (cases "schema_error e ?d")
            case (Some msg)
            with an a t qs ne assms show ?thesis
              by (simp add: createManualQuiz_def Let_def failure_def failure_with_def)
          next
            case ok: None
            show ?thesis
            proof (cases "newObjectId e st \<in> fst ` set st")
              case True
              with ok an a t qs ne assms show ?thesis
                by (simp add: createManualQuiz_def Let_def failure_def failure_with_def)
            next
              case False
              with ok an a t qs ne show ?thesis
                by (simp add: createManualQuiz_def Let_def)
            qed
          qed
        qed
      qed
    qed
  qed
qed

text \<open>
  C6. The generate operation leaves the store as it was; its successful response is
  tagged \<open>preview\<close> and carries the title and the validated questions of what was parsed
  from the provider's text. No operation other than the manual create adds an
  identifier to the store, and a manual create answered with 201 appends one document
  under an identifier that was not in the store.
\<close>

theorem only_create_adds_to_store:
  "snd (handle e st (Generate req)) = st \<and>
   (success (fst (handle e st (Generate req))) \<longrightarrow>
      preview (fst (handle e st (Generate req))) \<and>
      (\<exists>p raw aiJson qs vqs.
         prompt (gen_body req) = Some p \<and>
         generateContent e
           \<lparr>pp_topic = p, pp_quizType = quizType (gen_body req),
            pp_questionCount = questionCount (numberOfQuestions (gen_body req))\<rparr> = Inr raw \<and>
         JSON_parse e (json_span (clean_text raw)) = Inr aiJson \<and>
         cand_questions aiJson = Some qs \<and>
         validatedQuestions qs = Inr vqs \<and>
         data (fst (handle e st (Generate req))) = Some (PreviewQuiz (cand_title aiJson) vqs 10))) \<and>
   (\<forall>op. (\<forall>r. op \<noteq> CreateManual r) \<longrightarrow> fst ` set (snd (handle e st op)) \<subseteq> fst ` set st) \<and>
   (\<forall>r. status (fst (handle e st (CreateManual r))) = 201 \<longrightarrow>
      (\<exists>i d. i \<notin> fst ` set st \<and> snd (handle e st (CreateManual r)) = st @ [(i, d)]))"
proof (intro conjI allI impI)
  show "snd (handle e st (Generate req)) = st" by simp
next
  assume s: "success (fst (handle e st (Generate req)))"
  let ?qc = "questionCount (numberOfQuestions (gen_body req))"
  from s have s': "success (generateQuiz e req)" by simp
  from generateQuiz_success [OF s'] obtain topic raw where
    pr: "prompt (gen_body req) = Some topic" and
    c: "generateContent e
           \<lparr>pp_topic = topic, pp_quizType = quizType (gen_body req),
            pp_questionCount = ?qc\<rparr> = Inr raw"
    and g: "generateQuiz e req = respond_to_text e ?qc raw" by blast
  with s' have "success (respond_to_text e ?qc raw)" by simp
  from respond_to_text_success [OF this] obtain aiJson qs vqs where
    p: "JSON_parse e (json_span (clean_text raw)) = Inr aiJson"
    and q: "cand_questions aiJson = Some qs" and v: "validatedQuestions qs = Inr vqs" and
    r: "respond_to_text e ?qc raw =
             \<lparr>status = 200, success = True,
              message = Some (responseMessage (int (length vqs)) ?qc),
              error = None, rawText = None,
              data = Some (PreviewQuiz (cand_title aiJson) vqs 10),
              preview = True\<rparr>" by blast
  show "preview (fst (handle e st (Generate req)))" by (simp add: g r)
  have "data (fst (handle e st (Generate req))) = Some (PreviewQuiz (cand_title aiJson) vqs 10)"
    by (simp add: g r)
  with pr c p q v show "\<exists>p raw aiJson qs vqs.
         prompt (gen_body req) = Some p \<and>
         generateContent e
           \<lparr>pp_topic = p, pp_quizType = quizType (gen_body req),
            pp_questionCount = questionCount (numberOfQuestions (gen_body req))\<rparr> = Inr raw \<and>
         JSON_parse e (json_span (clean_text raw)) = Inr aiJson \<and>
         cand_questions aiJson = Some qs \<and>
         validatedQuestions qs = Inr vqs \<and>
         data (fst (handle e st (Generate req))) = Some (PreviewQuiz (cand_title aiJson) vqs 10)"
    by blast
next
  fix op
  assume nc: "\<forall>r. op \<noteq> CreateManual r"
  show "fst ` set (snd (handle e st op)) \<subseteq> fst ` set st"
  proof (cases op)
    case (Generate r)
    then show ?thesis by simp
  next
    case (ListQuizzes r)
    then show ?thesis by (simp add: getQuizzes_store)
  next
    case (GetById r)
    then show ?thesis by (simp add: getQuizById_store)
  next
    case (Delete r)
    from deleteQuiz_store [of st r] consider "snd (deleteQuiz st r) = st"
      | "snd (deleteQuiz st r) = findByIdAndDelete st (req_id r)" by blast
    then show ?thesis by cases (simp_all add: Delete findByIdAndDelete_keys)
  next
    case (Update r)
    from updateQuiz_store [of e st r] consider "snd (updateQuiz e st r) = st"
      | d where "snd (updateQuiz e st r) = replace_doc st (upd_id r) d" by blast
    then show ?thesis by cases (simp_all add: Update replace_doc_keys)
  next
    case (CreateManual r)
    with nc show ?thesis by simp
  qed
next
  fix r
  assume "status (fst (handle e st (CreateManual r))) = 201"
  then have "status (fst (createManualQuiz e st r)) = 201" by simp
  from createManualQuiz_created [OF this]
  show "\<exists>i d. i \<notin> fst ` set st \<and> snd (handle e st (CreateManual r)) = st @ [(i, d)]"
    by auto
qed


text \<open>C6 at a successful generate, a delete and a create on the example store.\<close>

theorem only_create_adds_witness:
  "success (fst (handle example_env example_store (Generate example_gen_request))) \<and>
   preview (fst (handle example_env example_store (Generate example_gen_request))) \<and>
   snd (handle example_env example_store (Generate example_gen_request)) = example_store \<and>
   (\<forall>r. Delete \<lparr>req_user = admin1, req_id = ''quiz1''\<rparr> \<noteq> CreateManual r) \<and>
   fst ` set (snd (handle example_env example_store
                     (Delete \<lparr>req_user = admin1, req_id = ''quiz1''\<rparr>))) \<subseteq> fst ` set example_store \<and>
   status (fst (handle example_env example_store
                  (CreateManual \<lparr>new_user = admin2,
                     new_body = \<lparr>body_title = Some ''Primes'',
                                 body_questions = Some example_questions,
                                 body_timeLimit = None,
        body_weightage = None, body_weightageType = None\<rparr>\<rparr>))) = 201 \<and>
   (\<exists>i d. i \<notin> fst ` set example_store \<and>
      snd (handle example_env example_store
             (CreateManual \<lparr>new_user = admin2,
                new_body = \<lparr>body_title = Some ''Primes'',
                            body_questions = Some example_questions,
                            body_timeLimit = None,
        body_weightage = None, body_weightageType = None\<rparr>\<rparr>)) = example_store @ [(i, d)])"
proof -
  let ?c = "\<lparr>new_user = admin2,
             new_body = \<lparr>body_title = Some ''Primes'', body_questions = Some example_questions,
                         body_timeLimit = None,
        body_weightage = None, body_weightageType = None\<rparr>\<rparr>"
  let ?d = "Delete \<lparr>req_user = admin1, req_id = ''quiz1''\<rparr>"
  have s: "success (fst (handle example_env example_store (Generate example_gen_request)))"
    by (simp add: example_generateQuiz)
  have c: "status (fst (handle example_env example_store (CreateManual ?c))) = 201"
    by code_simp
  have d: "\<forall>r. ?d \<noteq> CreateManual r" by simp
  note t = only_create_adds_to_store [of example_env example_store example_gen_request]
  from t s have "preview (fst (handle example_env example_store (Generate example_gen_request)))"
    by blast
  moreover from t have "snd (handle example_env example_store (Generate example_gen_request)) = example_store"
    by blast
  moreover from t d have "fst ` set (snd (handle example_env example_store ?d)) \<subseteq> fst ` set example_store"
    by blast
  moreover from t c have "\<exists>i d. i \<notin> fst ` set example_store \<and>
      snd (handle example_env example_store (CreateManual ?c)) = example_store @ [(i, d)]"
    by blast
  ultimately show ?thesis using s c d by blast
qed


text \<open>
  C7. When the call to the generation provider fails, the generate operation answers
  500 with \<open>success\<close> false, the provider's error message as the cause, and no quiz data:
  nothing is put in the place of the missing quiz.
\<close>

theorem provider_failure_propagates:
  assumes "prompt (gen_body req) = Some p" and "p \<noteq> []"
    and "truthy (adminId_of (gen_user req))" and "truthy (apiKey e)"
    and "generateContent e
           \<lparr>pp_topic = p, pp_quizType = quizType (gen_body req),
            pp_questionCount = questionCount (numberOfQuestions (gen_body req))\<rparr> = Inl cause"
  shows "generateQuiz e req =
           \<lparr>status = 500, success = False,
            message = Some ''Failed to connect to AI service. Please check your API key and try again.'',
            error = Some (ApiError cause), rawText = None, data = None, preview = False\<rparr>"
  using assms by (simp add: generateQuiz_def Let_def failure_with_def failure_def)

text \<open>C7 with the provider that fails with \<open>fetch failed\<close>.\<close>

theorem provider_failure_witness:
  "prompt (gen_body example_gen_request) = Some ''numbers'' \<and> ''numbers'' \<noteq> [] \<and>
   truthy (adminId_of (gen_user example_gen_request)) \<and> truthy (apiKey failing_env) \<and>
   generateContent failing_env
     \<lparr>pp_topic = ''numbers'', pp_quizType = quizType (gen_body example_gen_request),
      pp_questionCount = questionCount (numberOfQuestions (gen_body example_gen_request))\<rparr>
     = Inl ''fetch failed'' \<and>
   generateQuiz failing_env example_gen_request =
     \<lparr>status = 500, success = False,
      message = Some ''Failed to connect to AI service. Please check your API key and try again.'',
      error = Some (ApiError ''fetch failed''), rawText = None, data = None, preview = False\<rparr>"
proof -
  have 1: "prompt (gen_body example_gen_request) = Some ''numbers''"
    by (simp add: example_gen_request_def)
  have 2: "''numbers'' \<noteq> []" by simp
  have 3: "truthy (adminId_of (gen_user example_gen_request))"
    by (simp add: example_gen_request_def admin1_def adminId_of_def js_or_def truthy_def)
  have 4: "truthy (apiKey failing_env)"
    by (simp add: failing_env_def example_env_def truthy_def)
  have 5: "generateContent failing_env
     \<lparr>pp_topic = ''numbers'', pp_quizType = quizType (gen_body example_gen_request),
      pp_questionCount = questionCount (numberOfQuestions (gen_body example_gen_request))\<rparr>
     = Inl ''fetch failed''"
    by (simp add: failing_env_def)
  from provider_failure_propagates [OF 1 2 3 4 5] 1 2 3 4 5 show ?thesis by blast
qed

text \<open>
  C8. For a stored quiz and a requester identity different from the quiz's stored owner,
  \<open>getQuizById\<close>, \<open>deleteQuiz\<close> and \<open>updateQuiz\<close> each answer 403 and leave the store
  unchanged, whatever the body of the update request and whatever the schema accepts.
\<close>

theorem other_requester_forbidden:
  assumes "findById st i = Some quiz" and "adminId_of u = Some a" and "a \<noteq> adminId quiz"
  shows "getQuizById st \<lparr>req_user = u, req_id = i\<rparr> =
           (failure 403 ''Not authorized to view this quiz'', st) \<and>
         deleteQuiz st \<lparr>req_user = u, req_id = i\<rparr> =
           (failure 403 ''Not authorized to delete this quiz'', st) \<and>
         updateQuiz e st \<lparr>upd_user = u, upd_id = i, upd_body = b\<rparr> =
           (failure 403 ''Not authorized to edit this quiz'', st)"
  using assms by (auto simp: getQuizById_def deleteQuiz_def updateQuiz_def)

text \<open>C8 with the second administrator on the first administrator's quiz.\<close>

theorem other_requester_forbidden_witness:
  "findById example_store ''quiz1'' = Some example_quiz \<and>
   adminId_of admin2 = Some ''admin2'' \<and> ''admin2'' \<noteq> adminId example_quiz \<and>
   getQuizById example_store \<lparr>req_user = admin2, req_id = ''quiz1''\<rparr> =
     (failure 403 ''Not authorized to view this quiz'', example_store) \<and>
   deleteQuiz example_store \<lparr>req_user = admin2, req_id = ''quiz1''\<rparr> =
     (failure 403 ''Not authorized to delete this quiz'', example_store) \<and>
   updateQuiz example_env example_store
     \<lparr>upd_user = admin2, upd_id = ''quiz1'',
      upd_body = \<lparr>body_title = Some ''Mine now'', body_questions = None, body_timeLimit = Some 5,
        body_weightage = None, body_weightageType = None\<rparr>\<rparr> =
     (failure 403 ''Not authorized to edit this quiz'', example_store)"
proof -
  have 1: "findById example_store ''quiz1'' = Some example_quiz"
    by (simp add: findById_def example_store_def)
  have 2: "adminId_of admin2 = Some ''admin2''"
    by (simp add: admin2_def adminId_of_def js_or_def truthy_def)
  have 3: "''admin2'' \<noteq> adminId example_quiz"
    by (simp add: example_quiz_def)
  from other_requester_forbidden [OF 1 2 3] 1 2 3 show ?thesis by blast
qed

lemma findById_replace_doc:
  "findById (replace_doc st i d) j =
     (if j = i \<and> findById st i \<noteq> None then Some d else findById st j)"
  by (induction st) (auto simp: findById_def replace_doc_def)

text \<open>
  What \<open>updateQuiz\<close> does for the owner: when the schema accepts the patched quiz, the
  title, the questions and the time limit are those of the patch where the patch has the
  field and the prior values where it has not, the owner is kept, a weightage field
  that the patch omits is kept, and the other documents are untouched. An update that the
  schema rejects is answered 500 and changes nothing.
\<close>

lemma updateQuiz_by_owner:
  assumes "findById st i = Some quiz" and "adminId_of u = Some (adminId quiz)"
  shows "(schema_error e (apply_patch b quiz) = None \<longrightarrow>
           (\<exists>quiz'. updateQuiz e st \<lparr>upd_user = u, upd_id = i, upd_body = b\<rparr> =
               (\<lparr>status = 200, success = True, message = Some ''Quiz updated successfully'',
                 error = None, rawText = None, data = Some (StoredQuiz quiz'),
                 preview = False\<rparr>,
                replace_doc st i quiz') \<and>
              findById (replace_doc st i quiz') i = Some quiz' \<and>
              title quiz' = (case body_title b of None \<Rightarrow> title quiz | Some t \<Rightarrow> t) \<and>
              questions quiz' =
                (case body_questions b of None \<Rightarrow> questions quiz | Some qs \<Rightarrow> qs) \<and>
              timeLimit quiz' =
                (case body_timeLimit b of None \<Rightarrow> timeLimit quiz | Some lim \<Rightarrow> lim) \<and>
              adminId quiz' = adminId quiz \<and>
              (body_weightage b = None \<longrightarrow> weightage quiz' = weightage quiz) \<and>
              (body_weightageType b = None \<longrightarrow> weightageType quiz' = weightageType quiz) \<and>
              (\<forall>j. j \<noteq> i \<longrightarrow> findById (replace_doc st i quiz') j = findById st j))) \<and>
         (\<forall>msg. schema_error e (apply_patch b quiz) = Some msg \<longrightarrow>
            updateQuiz e st \<lparr>upd_user = u, upd_id = i, upd_body = b\<rparr> =
              (failure_with 500 ''Failed to update quiz'' (StoreError msg), st))"
proof (intro conjI impI allI)
  let ?q = "apply_patch b quiz"
  assume ok: "schema_error e ?q = None"
  have u: "updateQuiz e st \<lparr>upd_user = u, upd_id = i, upd_body = b\<rparr> =
             (\<lparr>status = 200, success = True, message = Some ''Quiz updated successfully'',
               error = None, rawText = None, data = Some (StoredQuiz ?q), preview = False\<rparr>,
              replace_doc st i ?q)"
    using assms ok by (simp add: updateQuiz_def Let_def)
  have f: "findById (replace_doc st i ?q) i = Some ?q"
    using assms(1) by (simp add: findById_replace_doc)
  have t: "title ?q = (case body_title b of None \<Rightarrow> title quiz | Some t \<Rightarrow> t)"
    by (simp add: apply_patch_def Let_def split: option.splits)
  have q: "questions ?q = (case body_questions b of None \<Rightarrow> questions quiz | Some qs \<Rightarrow> qs)"
    by (simp add: apply_patch_def Let_def split: option.splits)
  have l: "timeLimit ?q = (case body_timeLimit b of None \<Rightarrow> timeLimit quiz | Some lim \<Rightarrow> lim)"
    by (simp add: apply_patch_def Let_def split: option.splits)
  have a: "adminId ?q = adminId quiz"
    by (simp add: apply_patch_def Let_def split: option.splits)
  have w: "body_weightage b = None \<longrightarrow> weightage ?q = weightage quiz"
    by (simp add: apply_patch_def Let_def split: option.splits)
  have wt: "body_weightageType b = None \<longrightarrow> weightageType ?q = weightageType quiz"
    by (simp add: apply_patch_def Let_def split: option.splits)
  have o: "\<forall>j. j \<noteq> i \<longrightarrow> findById (replace_doc st i ?q) j = findById st j"
    by (simp add: findById_replace_doc)
  show "\<exists>quiz'. updateQuiz e st \<lparr>upd_user = u, upd_id = i, upd_body = b\<rparr> =
               (\<lparr>status = 200, success = True, message = Some ''Quiz updated successfully'',
                 error = None, rawText = None, data = Some (StoredQuiz quiz'),
                 preview = False\<rparr>,
                replace_doc st i quiz') \<and>
              findById (replace_doc st i quiz') i = Some quiz' \<and>
              title quiz' = (case body_title b of None \<Rightarrow> title quiz | Some t \<Rightarrow> t) \<and>
              questions quiz' =
                (case body_questions b of None \<Rightarrow> questions quiz | Some qs \<Rightarrow> qs) \<and>
              timeLimit quiz' =
                (case body_timeLimit b of None \<Rightarrow> timeLimit quiz | Some lim \<Rightarrow> lim) \<and>
              adminId quiz' = adminId quiz \<and>
              (body_weightage b = None \<longrightarrow> weightage quiz' = weightage quiz) \<and>
              (body_weightageType b = None \<longrightarrow> weightageType quiz' = weightageType quiz) \<and>
              (\<forall>j. j \<noteq> i \<longrightarrow> findById (replace_doc st i quiz') j = findById st j)"
    by (rule exI [of _ "apply_patch b quiz"]) (intro conjI u f t q l a w wt o)
next
  fix msg
  assume "schema_error e (apply_patch b quiz) = Some msg"
  with assms show "updateQuiz e st \<lparr>upd_user = u, upd_id = i, upd_body = b\<rparr> =
              (failure_with 500 ''Failed to update quiz'' (StoreError msg), st)"
    by (simp add: updateQuiz_def Let_def)
qed

text \<open>
  C9. The claim asks that the fields present in the owner's patch are applied. The edit
  form sends a weightage and a weightage type with every save; \<open>updateQuiz\<close> reads only
  the title, the questions and the time limit. Run on the body the form sends (a new
  title, the questions, the time limit 10, and a weightage of 50 marks) for the owner's
  quiz with the weightage 0 percent, it answers 200 with \<open>Quiz updated successfully\<close> and
  stores the new title, while the weightage and its type stay as they were. The same
  holds for a body that carries the two weightage fields only: the answer is 200 and the
  stored quiz is unchanged.
\<close>

theorem update_drops_weightage_of_patch:
  "findById example_store ''quiz1'' = Some example_quiz \<and>
   adminId_of admin1 = Some (adminId example_quiz) \<and>
   weightage example_quiz = Some 0 \<and> weightageType example_quiz = Some ''percentage'' \<and>
   body_weightage form_patch = Some 50 \<and> body_weightageType form_patch = Some ''marks'' \<and>
   updateQuiz example_env example_store
     \<lparr>upd_user = admin1, upd_id = ''quiz1'', upd_body = form_patch\<rparr> =
     (\<lparr>status = 200, success = True, message = Some ''Quiz updated successfully'',
       error = None, rawText = None,
       data = Some (StoredQuiz (example_quiz\<lparr>title := ''Integers''\<rparr>)), preview = False\<rparr>,
      [(''quiz1'', example_quiz\<lparr>title := ''Integers''\<rparr>)]) \<and>
   weightage (example_quiz\<lparr>title := ''Integers''\<rparr>) = Some 0 \<and>
   weightageType (example_quiz\<lparr>title := ''Integers''\<rparr>) = Some ''percentage'' \<and>
   body_weightage weightage_patch = Some 50 \<and>
   body_weightageType weightage_patch = Some ''marks'' \<and>
   updateQuiz example_env example_store
     \<lparr>upd_user = admin1, upd_id = ''quiz1'', upd_body = weightage_patch\<rparr> =
     (\<lparr>status = 200, success = True, message = Some ''Quiz updated successfully'',
       error = None, rawText = None, data = Some (StoredQuiz example_quiz), preview = False\<rparr>,
      example_store)"
  by (simp add: findById_def example_store_def admin1_def adminId_of_def js_or_def truthy_def
      example_quiz_def weightage_patch_def form_patch_def updateQuiz_def apply_patch_def
      replace_doc_def example_env_def Let_def)

text \<open>
  C10. In \<open>generateQuiz\<close> and in \<open>createManualQuiz\<close> the check for missing fields comes
  before the check of the identity: a request with no requester identity is answered 400
  when the prompt (for generate), or the title or a non-empty questions list (for
  create), is missing, and 401 only when those fields are there.
\<close>

theorem missing_fields_checked_before_identity:
  assumes "\<not> truthy (adminId_of u)"
  shows "(\<not> truthy (prompt b) \<longrightarrow>
            generateQuiz e \<lparr>gen_user = u, gen_body = b\<rparr> = failure 400 ''Prompt is required'') \<and>
         (truthy (prompt b) \<longrightarrow>
            generateQuiz e \<lparr>gen_user = u, gen_body = b\<rparr> =
              failure 401 ''You must be logged in to create a quiz'') \<and>
         (\<not> truthy (body_title c) \<or> body_questions c = None \<or> body_questions c = Some [] \<longrightarrow>
            createManualQuiz e st \<lparr>new_user = u, new_body = c\<rparr> =
              (failure 400 ''Title and at least one question are required'', st)) \<and>
         (\<not> (\<not> truthy (body_title c) \<or> body_questions c = None \<or> body_questions c = Some []) \<longrightarrow>
            createManualQuiz e st \<lparr>new_user = u, new_body = c\<rparr> =
              (failure 401 ''You must be logged in to create a quiz'', st)) \<and>
         status (failure 400 ''Prompt is required'') = 400 \<and>
         status (failure 400 ''Title and at least one question are required'') = 400"
proof (intro conjI impI)
  assume "\<not> truthy (prompt b)"
  then show "generateQuiz e \<lparr>gen_user = u, gen_body = b\<rparr> = failure 400 ''Prompt is required''"
    by (cases "prompt b") (simp_all add: generateQuiz_def truthy_def)
next
  assume "truthy (prompt b)"
  with assms show "generateQuiz e \<lparr>gen_user = u, gen_body = b\<rparr> =
              failure 401 ''You must be logged in to create a quiz''"
    by (cases "prompt b") (simp_all add: generateQuiz_def truthy_def)
next
  assume "\<not> truthy (body_title c) \<or> body_questions c = None \<or> body_questions c = Some []"
  then show "createManualQuiz e st \<lparr>new_user = u, new_body = c\<rparr> =
              (failure 400 ''Title and at least one question are required'', st)"
    by (cases "body_title c"; cases "body_questions c")
       (auto simp: createManualQuiz_def truthy_def)
next
  assume "\<not> (\<not> truthy (body_title c) \<or> body_questions c = None \<or> body_questions c = Some [])"
  with assms show "createManualQuiz e st \<lparr>new_user = u, new_body = c\<rparr> =
              (failure 401 ''You must be logged in to create a quiz'', st)"
    by (cases "body_title c"; cases "body_questions c"; cases "adminId_of u")
       (auto simp: createManualQuiz_def truthy_def)
qed (simp_all add: failure_def)


text \<open>C10 with no user, no prompt, and an empty questions list.\<close>

theorem missing_fields_checked_first_witness:
  "\<not> truthy (adminId_of None) \<and>
   \<not> truthy (prompt \<lparr>prompt = None, quizType = Some ''mcq'', numberOfQuestions = Some (code_units ''5'')\<rparr>) \<and>
   generateQuiz example_env
     \<lparr>gen_user = None,
      gen_body = \<lparr>prompt = None, quizType = Some ''mcq'', numberOfQuestions = Some (code_units ''5'')\<rparr>\<rparr> =
     failure 400 ''Prompt is required'' \<and>
   body_questions \<lparr>body_title = Some ''Primes'', body_questions = Some [], body_timeLimit = None,
        body_weightage = None, body_weightageType = None\<rparr>
     = Some [] \<and>
   createManualQuiz example_env example_store
     \<lparr>new_user = None,
      new_body = \<lparr>body_title = Some ''Primes'', body_questions = Some [], body_timeLimit = None,
        body_weightage = None, body_weightageType = None\<rparr>\<rparr> =
     (failure 400 ''Title and at least one question are required'', example_store) \<and>
   status (failure 400 ''Prompt is required'') = 400"
proof -
  let ?b = "\<lparr>prompt = None, quizType = Some ''mcq'', numberOfQuestions = Some (code_units ''5'')\<rparr>"
  let ?c = "\<lparr>body_title = Some ''Primes'', body_questions = Some [], body_timeLimit = None,
        body_weightage = None, body_weightageType = None\<rparr>"
  have 1: "\<not> truthy (adminId_of None)" by (simp add: adminId_of_def truthy_def)
  have 2: "\<not> truthy (prompt ?b)" by (simp add: truthy_def)
  have 3: "body_questions ?c = Some []" by simp
  from missing_fields_checked_before_identity [OF 1, of ?b example_env ?c example_store] 1 2 3
  show ?thesis by blast
qed

end
